theory Spec2Isabelle
  imports Main
begin

section \<open>MicroDocs: the note API routes\<close>

text \<open>
  A shallow embedding of the three API route files of the repository:
  \<^item> \<^verbatim>\<open>src/app/api/notes/route.ts\<close> (\<open>generateUniqueSlug\<close>, \<open>POST\<close>),
  \<^item> \<^verbatim>\<open>src/app/api/notes/[slug]/route.ts\<close> (\<open>applyRateLimit\<close>, \<open>GET\<close>, \<open>PUT\<close>),
  \<^item> \<^verbatim>\<open>src/app/api/notes/[slug]/history/route.ts\<close> (\<open>applyRateLimit\<close>, \<open>GET\<close>).

  Conventions of the model.
  \<^item> A JavaScript string is a \<open>string\<close>; one \<open>char\<close> is one code unit, so the model
    covers the code units below 256.
  \<^item> A request field that may be missing is a \<open>string option\<close>; \<open>None\<close> stands for
    \<open>undefined\<close> and \<open>null\<close>. Fields that are present are strings, as the interfaces of
    the client pages declare them.
  \<^item> An instant is an \<open>int\<close> (milliseconds since the epoch, what \<open>Date.now()\<close> and the
    comparison of two \<open>Date\<close> objects use).
  \<^item> The collection \<open>notes\<close> is the list of its documents in insertion order.
  \<^item> A handler returns its response together with the updated rate-limit map and, when
    it writes, the updated collection. The database is reachable and the request body
    is JSON, so the only \<open>catch\<close> branches of the model are those of exceptions the
    handler's own code raises.
\<close>

subsection \<open>JavaScript values\<close>

text \<open>Truthiness of a possibly missing string: \<open>undefined\<close>, \<open>null\<close> and \<open>''\<close> are falsy.\<close>

definition truthy :: "string option \<Rightarrow> bool" where
  "truthy v = (case v of None \<Rightarrow> False | Some s \<Rightarrow> s \<noteq> [])"

text \<open>\<open>a || b\<close> on possibly missing strings.\<close>

definition js_or :: "string option \<Rightarrow> string option \<Rightarrow> string option" where
  "js_or a b = (if truthy a then a else b)"

text \<open>
  A \<open>Date\<close>: an instant, or the \<open>Invalid Date\<close> that \<open>new Date(s)\<close> gives for a string
  it cannot parse. Comparisons with \<open>Invalid Date\<close> compare with \<open>NaN\<close> and are false.
\<close>

datatype jsdate = Instant int | InvalidDate

fun date_le :: "jsdate \<Rightarrow> int \<Rightarrow> bool" where
  "date_le (Instant t) now = (t \<le> now)"
| "date_le InvalidDate now = False"

fun date_gt :: "jsdate \<Rightarrow> int \<Rightarrow> bool" where
  "date_gt (Instant t) now = (t > now)"
| "date_gt InvalidDate now = False"

text \<open>Decimal rendering of an integer, as \<open>Number.prototype.toString\<close> does.\<close>

fun digits :: "nat \<Rightarrow> string" where
  "digits n =
     (if n < 10 then [char_of (48 + n)]
      else digits (n div 10) @ [char_of (48 + n mod 10)])"

declare digits.simps [simp del]

definition decimal :: "int \<Rightarrow> string" where
  "decimal i = (if i < 0 then CHR ''-'' # digits (nat (- i)) else digits (nat i))"

text \<open>\<open>s.split(' ')\<close>: the pieces between the separators; the empty string has one piece.\<close>

fun split :: "char \<Rightarrow> string \<Rightarrow> string list" where
  "split c [] = [[]]"
| "split c (x # xs) =
     (if x = c then [] # split c xs
      else (case split c xs of w # ws \<Rightarrow> (x # w) # ws | [] \<Rightarrow> [[x]]))"

text \<open>\<open>xs[i]\<close> on an array: \<open>undefined\<close> out of range.\<close>

definition at_index :: "string list \<Rightarrow> nat \<Rightarrow> string option" where
  "at_index xs i = (if i < length xs then Some (xs ! i) else None)"

subsection \<open>Responses\<close>

text \<open>
  The JSON value handed to \<open>NextResponse.json\<close>. An object is the list of its
  properties in the order of the object literal. \<open>JUndefined\<close> is the value of a property
  written as \<open>undefined\<close> (serialisation drops such a property).
\<close>

datatype json =
    JUndefined
  | JBool bool
  | JStr string
  | JArr "json list"
  | JObj "(string \<times> json) list"

text \<open>The names of the properties of an object, in order (no names for other values).\<close>

fun keys :: "json \<Rightarrow> string list" where
  "keys (JObj kvs) = map fst kvs"
| "keys v = []"

record response =
  status :: nat
  headers :: "(string \<times> string) list"
  body :: json

definition respond :: "nat \<Rightarrow> json \<Rightarrow> response" where
  "respond st b = \<lparr>status = st, headers = [], body = b\<rparr>"

definition message :: "nat \<Rightarrow> string \<Rightarrow> response" where
  "message st m = respond st (JObj [(''message'', JStr m)])"

definition message_error :: "nat \<Rightarrow> string \<Rightarrow> string \<Rightarrow> response" where
  "message_error st m e = respond st (JObj [(''message'', JStr m), (''error'', JStr e)])"

subsection \<open>Rate limiting\<close>

text \<open>
  Each route file has its own \<open>rateLimitStore\<close>, a \<open>Map\<close> from the client address to
  \<open>{count, lastReset}\<close>, and the same limiter: as the function \<open>applyRateLimit\<close> in the
  two \<open>[slug]\<close> routes (\<open>MAX_REQUESTS_PER_WINDOW = 10\<close>) and inline at the head of
  \<open>POST\<close> (\<open>MAX_REQUESTS_PER_WINDOW = 5\<close>). \<open>rateLimit\<close> is that code with the maximum as
  a parameter.
\<close>

record clientData =
  count :: nat
  lastReset :: int

type_synonym rateLimitStore = "string \<rightharpoonup> clientData"

definition WINDOW_SIZE_MS :: int where
  "WINDOW_SIZE_MS = 60 * 1000"

text \<open>\<open>req.ip || req.headers.get('x-forwarded-for') || 'anonymous'\<close>\<close>

definition clientAddress :: "string option \<Rightarrow> string option \<Rightarrow> string" where
  "clientAddress ip forwarded =
     (case js_or (js_or ip forwarded) (Some ''anonymous'') of Some a \<Rightarrow> a | None \<Rightarrow> [])"

text \<open>\<open>Math.ceil((lastReset + WINDOW_SIZE_MS - now) / 1000)\<close>\<close>

definition timeLeft :: "int \<Rightarrow> int \<Rightarrow> int" where
  "timeLeft reset now = - ((- (reset + WINDOW_SIZE_MS - now)) div 1000)"

definition tooManyRequests :: "int \<Rightarrow> response" where
  "tooManyRequests secs =
     \<lparr>status = 429,
      headers = [(''Retry-After'', decimal secs)],
      body = JObj [(''message'',
        JStr (''Too many requests. Please try again in '' @ decimal secs @ '' seconds.''))]\<rparr>"

definition rateLimit ::
  "nat \<Rightarrow> rateLimitStore \<Rightarrow> string \<Rightarrow> int \<Rightarrow> response option \<times> rateLimitStore" where
  "rateLimit maxRequests store ip now =
     (let clientData0 = (case store ip of Some d \<Rightarrow> d | None \<Rightarrow> \<lparr>count = 0, lastReset = now\<rparr>);
          clientData1 = (if now - lastReset clientData0 > WINDOW_SIZE_MS
                         then \<lparr>count = 0, lastReset = now\<rparr> else clientData0);
          clientData2 = clientData1\<lparr>count := count clientData1 + 1\<rparr>;
          store' = store(ip \<mapsto> clientData2)
      in if count clientData2 > maxRequests
         then (Some (tooManyRequests (timeLeft (lastReset clientData2) now)), store')
         else (None, store'))"

definition MAX_REQUESTS_PER_WINDOW :: nat where
  "MAX_REQUESTS_PER_WINDOW = 10"

definition MAX_REQUESTS_PER_WINDOW_POST :: nat where
  "MAX_REQUESTS_PER_WINDOW_POST = 5"

definition applyRateLimit ::
  "rateLimitStore \<Rightarrow> string \<Rightarrow> int \<Rightarrow> response option \<times> rateLimitStore" where
  "applyRateLimit = rateLimit MAX_REQUESTS_PER_WINDOW"

text \<open>
  A run of requests from one address, to state properties of request sequences: the
  arrival times in order, each served by the limiter on the map the previous one left.
\<close>

fun serve ::
  "nat \<Rightarrow> rateLimitStore \<Rightarrow> string \<Rightarrow> int list \<Rightarrow> response option list \<times> rateLimitStore" where
  "serve m store ip [] = ([], store)"
| "serve m store ip (t # ts) =
     (case rateLimit m store ip t of
        (r, store') \<Rightarrow> (case serve m store' ip ts of (rs, store'') \<Rightarrow> (r # rs, store'')))"

subsection \<open>The world outside the route files\<close>

text \<open>
  The library functions a handler calls, as parameters: \<open>filter.isProfane\<close> of
  bad-words, \<open>bcrypt.compare\<close> (plaintext, then digest) and \<open>bcrypt.hash(_, 10)\<close>,
  \<open>nanoid\<close> (its \<open>k\<close>-th call within the request, with the size asked for),
  \<open>new Date(s)\<close> on a string, \<open>Date.prototype.toISOString\<close> on an instant, and the
  \<open>_id\<close> the driver gives an inserted document.
\<close>

record env =
  isProfane :: "string \<Rightarrow> bool"
  bcrypt_compare :: "string \<Rightarrow> string \<Rightarrow> bool"
  bcrypt_hash :: "string \<Rightarrow> string"
  nanoid :: "nat \<Rightarrow> nat \<Rightarrow> string"
  parseDate :: "string \<Rightarrow> jsdate"
  toISOString :: "int \<Rightarrow> string"
  insertedId :: string

text \<open>
  The readings of the clock within one request, one field for each place that reads it:
  \<open>Date.now()\<close> of the limiter, \<open>new Date()\<close> of the expiry check of a stored note
  (in \<open>GET\<close>, the history \<open>GET\<close> and \<open>PUT\<close>), of \<open>updatedAt\<close>, of the check of a
  submitted expiration and of the history entry (in \<open>PUT\<close>), and \<open>noteCreationTime\<close>
  of \<open>POST\<close>.
\<close>

record clock =
  now_ms :: int
  at_expiry :: int
  at_update :: int
  at_expiration :: int
  at_history :: int
  at_creation :: int

text \<open>The field \<open>expiresAt\<close> of a request body: left out, \<open>null\<close>, or a string.\<close>

datatype expiry_field = Omitted | Null | Given string

text \<open>
  A request: the address and the headers a handler reads, the route parameter, and the
  fields the handlers destructure from the body.
\<close>

record request =
  ip :: "string option"
  forwarded :: "string option"
  authorization :: "string option"
  param_slug :: string
  b_title :: "string option"
  b_content :: "string option"
  b_password :: "string option"
  b_customSlug :: "string option"
  b_currentPassword :: "string option"
  b_newPassword :: "string option"
  b_expiresAt :: expiry_field

subsection \<open>Notes and the collection\<close>

record NoteContent =
  h_content :: string
  h_timestamp :: int

text \<open>
  A stored note (\<open>Note\<close>, \<open>DbNote\<close>). \<open>passwordHash\<close> and \<open>expiresAt\<close> are \<open>None\<close>
  when the document has no such field or has \<open>null\<close> there. The collection keeps a
  \<open>Date\<close> as it is given.
\<close>

record Note =
  oid :: string
  slug :: string
  title :: string
  content :: string
  passwordHash :: "string option"
  createdAt :: int
  updatedAt :: int
  expiresAt :: "jsdate option"
  history :: "NoteContent list"

type_synonym collection = "Note list"

definition findOne :: "collection \<Rightarrow> string \<Rightarrow> Note option" where
  "findOne db s = find (\<lambda>n. slug n = s) db"

definition insertOne :: "collection \<Rightarrow> Note \<Rightarrow> collection" where
  "insertOne db n = db @ [n]"

text \<open>
  The update document of \<open>PUT\<close>: the \<open>$set\<close> part always has \<open>title\<close>, \<open>content\<close> and
  \<open>updatedAt\<close>; \<open>passwordHash\<close> and \<open>expiresAt\<close> are in it when assigned (\<open>Some None\<close> is
  \<open>expiresAt: null\<close>); \<open>$push\<close> has a history entry or is deleted.
\<close>

record updateDoc =
  set_title :: string
  set_content :: string
  set_updatedAt :: int
  set_passwordHash :: "string option"
  set_expiresAt :: "jsdate option option"
  push_history :: "NoteContent option"

definition applyUpdate :: "updateDoc \<Rightarrow> Note \<Rightarrow> Note" where
  "applyUpdate u n =
     n\<lparr>title := set_title u,
       content := set_content u,
       updatedAt := set_updatedAt u,
       passwordHash := (case set_passwordHash u of Some h \<Rightarrow> Some h | None \<Rightarrow> passwordHash n),
       expiresAt := (case set_expiresAt u of Some d \<Rightarrow> d | None \<Rightarrow> expiresAt n),
       history := (case push_history u of Some h \<Rightarrow> history n @ [h] | None \<Rightarrow> history n)\<rparr>"

fun updateFirst :: "string \<Rightarrow> (Note \<Rightarrow> Note) \<Rightarrow> collection \<Rightarrow> collection" where
  "updateFirst s f [] = []"
| "updateFirst s f (n # ns) = (if slug n = s then f n # ns else n # updateFirst s f ns)"

text \<open>
  \<open>updateOne({slug}, updateDoc)\<close>: the first document with the slug is updated; the
  result is \<open>matchedCount\<close>, \<open>modifiedCount\<close> and the collection.
\<close>

definition updateOne :: "collection \<Rightarrow> string \<Rightarrow> updateDoc \<Rightarrow> nat \<times> nat \<times> collection" where
  "updateOne db s u =
     (case findOne db s of
        None \<Rightarrow> (0, 0, db)
      | Some n \<Rightarrow> (1, if applyUpdate u n = n then 0 else 1, updateFirst s (applyUpdate u) db))"

text \<open>\<open>note.expiresAt && note.expiresAt <= new Date()\<close>\<close>

definition isExpired :: "Note \<Rightarrow> int \<Rightarrow> bool" where
  "isExpired n now = (case expiresAt n of None \<Rightarrow> False | Some d \<Rightarrow> date_le d now)"

text \<open>\<open>!!note.passwordHash\<close>\<close>

definition isProtected :: "Note \<Rightarrow> bool" where
  "isProtected n = truthy (passwordHash n)"

text \<open>
  The block \<open>if (isProtected) { ... }\<close> of the three handlers that read or update a
  note: it differs between them only in the two messages. The result is the response
  of an early return, or \<open>None\<close> when the handler goes on.
\<close>

definition passwordGate ::
  "env \<Rightarrow> Note \<Rightarrow> string option \<Rightarrow> string \<Rightarrow> string \<Rightarrow> response option" where
  "passwordGate e n supplied required invalid =
     (case passwordHash n of
        None \<Rightarrow> None
      | Some h \<Rightarrow>
          if h = [] then None
          else (case supplied of
                  None \<Rightarrow> Some (message 401 required)
                | Some p \<Rightarrow>
                    if p = [] then Some (message 401 required)
                    else if \<not> bcrypt_compare e p h then Some (message 401 invalid)
                    else None))"

text \<open>\<open>authHeader?.split(' ')[1]\<close>\<close>

definition bearerToken :: "string option \<Rightarrow> string option" where
  "bearerToken authHeader =
     (case authHeader of None \<Rightarrow> None | Some h \<Rightarrow> at_index (split CHR '' '' h) 1)"

subsection \<open>Reading a note: \<open>GET\<close> of \<open>[slug]/route.ts\<close>\<close>

text \<open>
  The object \<open>noteResponse\<close>. \<open>toISOString\<close> of an \<open>Invalid Date\<close> throws a
  \<open>RangeError\<close>, which the handler's \<open>catch\<close> turns into the response 500; \<open>GET_try\<close>
  takes that branch before it builds the object.
\<close>

definition noteResponse :: "env \<Rightarrow> Note \<Rightarrow> json" where
  "noteResponse e n =
     JObj [(''title'', JStr (title n)),
           (''content'', JStr (content n)),
           (''isProtected'', JBool (isProtected n)),
           (''createdAt'', JStr (toISOString e (createdAt n))),
           (''updatedAt'', JStr (toISOString e (updatedAt n))),
           (''expiresAt'', (case expiresAt n of
                              Some (Instant t) \<Rightarrow> JStr (toISOString e t)
                            | _ \<Rightarrow> JUndefined))]"

text \<open>\<open>GET\<close> after the authentication (lines 108 to 117).\<close>

definition GET_respond :: "env \<Rightarrow> Note \<Rightarrow> response" where
  "GET_respond e n =
     (if expiresAt n = Some InvalidDate
      then message_error 500 ''Failed to retrieve note.'' ''Invalid time value''
      else respond 200 (JObj [(''note'', noteResponse e n)]))"

definition GET_try :: "env \<Rightarrow> clock \<Rightarrow> collection \<Rightarrow> request \<Rightarrow> response" where
  "GET_try e clk db req =
     (case findOne db (param_slug req) of
        None \<Rightarrow> message 404 ''Note not found.''
      | Some n \<Rightarrow>
          if isExpired n (at_expiry clk) then message 404 ''Note has expired.''
          else (case passwordGate e n (bearerToken (authorization req))
                       ''Password required.'' ''Invalid password.'' of
                  Some r \<Rightarrow> r
                | None \<Rightarrow> GET_respond e n))"

definition GET ::
  "env \<Rightarrow> clock \<Rightarrow> rateLimitStore \<Rightarrow> collection \<Rightarrow> request \<Rightarrow> response \<times> rateLimitStore" where
  "GET e clk store db req =
     (case applyRateLimit store (clientAddress (ip req) (forwarded req)) (now_ms clk) of
        (Some r, store') \<Rightarrow> (r, store')
      | (None, store') \<Rightarrow> (GET_try e clk db req, store'))"

subsection \<open>Reading the history: \<open>GET\<close> of \<open>[slug]/history/route.ts\<close>\<close>

definition historyResponse :: "env \<Rightarrow> Note \<Rightarrow> json" where
  "historyResponse e n =
     JArr (map (\<lambda>entry. JObj [(''content'', JStr (h_content entry)),
                               (''timestamp'', JStr (toISOString e (h_timestamp entry)))])
               (history n))"

text \<open>The history \<open>GET\<close> after the authentication.\<close>

definition GET_history_respond :: "env \<Rightarrow> Note \<Rightarrow> response" where
  "GET_history_respond e n =
     respond 200 (JObj [(''title'', JStr (title n)),
                        (''history'', historyResponse e n),
                        (''isProtected'', JBool (isProtected n))])"

definition GET_history_try :: "env \<Rightarrow> clock \<Rightarrow> collection \<Rightarrow> request \<Rightarrow> response" where
  "GET_history_try e clk db req =
     (case findOne db (param_slug req) of
        None \<Rightarrow> message 404 ''Note not found.''
      | Some n \<Rightarrow>
          if isExpired n (at_expiry clk) then message 404 ''Note has expired.''
          else (case passwordGate e n (bearerToken (authorization req))
                       ''Password required.'' ''Invalid password.'' of
                  Some r \<Rightarrow> r
                | None \<Rightarrow> GET_history_respond e n))"

definition GET_history ::
  "env \<Rightarrow> clock \<Rightarrow> rateLimitStore \<Rightarrow> collection \<Rightarrow> request \<Rightarrow> response \<times> rateLimitStore" where
  "GET_history e clk store db req =
     (case applyRateLimit store (clientAddress (ip req) (forwarded req)) (now_ms clk) of
        (Some r, store') \<Rightarrow> (r, store')
      | (None, store') \<Rightarrow> (GET_history_try e clk db req, store'))"

subsection \<open>Updating a note: \<open>PUT\<close> of \<open>[slug]/route.ts\<close>\<close>

text \<open>
  Lines 207 to 219, ``Handle expiresAt update'': the early return, or what the update
  document gets as \<open>$set.expiresAt\<close>.
\<close>

definition resolveExpiresAt ::
  "env \<Rightarrow> int \<Rightarrow> expiry_field \<Rightarrow> response + jsdate option option" where
  "resolveExpiresAt e now x =
     (case x of
        Null \<Rightarrow> Inr (Some None)
      | Given s \<Rightarrow>
          if s = [] then Inr None
          else (let expirationDate = parseDate e s
                in if date_le expirationDate now
                   then Inl (message 400 ''Expiration date must be in the future.'')
                   else Inr (Some (Some expirationDate)))
      | Omitted \<Rightarrow> Inr None)"

text \<open>
  \<open>note.expiresAt?.toISOString() === expiresAt\<close>, evaluated when \<open>expiresAt\<close> is not
  \<open>undefined\<close>; \<open>None\<close> when \<open>toISOString\<close> throws.
\<close>

definition sameExpiresAt :: "env \<Rightarrow> Note \<Rightarrow> expiry_field \<Rightarrow> bool option" where
  "sameExpiresAt e n x =
     (case expiresAt n of
        None \<Rightarrow> Some False
      | Some (Instant t) \<Rightarrow> Some (x = Given (toISOString e t))
      | Some InvalidDate \<Rightarrow> None)"

text \<open>
  The update document that \<open>PUT\<close> builds (lines 193 to 230), given what the handling
  of \<open>expiresAt\<close> assigns.
\<close>

definition makeUpdateDoc ::
  "env \<Rightarrow> clock \<Rightarrow> request \<Rightarrow> Note \<Rightarrow> string \<Rightarrow> string \<Rightarrow> jsdate option option
     \<Rightarrow> updateDoc" where
  "makeUpdateDoc e clk req n title' content' setExpires =
     \<lparr>set_title = title',
      set_content = content',
      set_updatedAt = at_update clk,
      set_passwordHash =
        (if truthy (b_newPassword req)
         then map_option (bcrypt_hash e) (b_newPassword req)
         else None),
      set_expiresAt = setExpires,
      push_history =
        (if content n \<noteq> content'
         then Some \<lparr>h_content = content', h_timestamp = at_history clk\<rparr>
         else None)\<rparr>"

text \<open>The response of \<open>PUT\<close> after \<open>updateOne\<close> (lines 238 to 246).\<close>

definition PUT_response ::
  "env \<Rightarrow> request \<Rightarrow> Note \<Rightarrow> string \<Rightarrow> nat \<Rightarrow> nat \<Rightarrow> response" where
  "PUT_response e req n content' matchedCount modifiedCount =
     (if matchedCount = 0
      then message 404 ''Note not found for update.''
      else if modifiedCount = 0 \<and> content n = content' \<and> \<not> truthy (b_newPassword req)
      then (if b_expiresAt req = Omitted
            then message 200 ''No changes detected to update.''
            else (case sameExpiresAt e n (b_expiresAt req) of
                    None \<Rightarrow> message_error 500 ''Failed to update note.'' ''Invalid time value''
                  | Some True \<Rightarrow> message 200 ''No changes detected to update.''
                  | Some False \<Rightarrow> message 200 ''Note updated successfully!''))
      else message 200 ''Note updated successfully!'')"

text \<open>
  \<open>PUT\<close> after the authentication (lines 193 to 246): the update document, the
  update, and the response.
\<close>

definition PUT_update ::
  "env \<Rightarrow> clock \<Rightarrow> collection \<Rightarrow> request \<Rightarrow> Note \<Rightarrow> string \<Rightarrow> string
     \<Rightarrow> response \<times> collection" where
  "PUT_update e clk db req n title' content' =
     (case resolveExpiresAt e (at_expiration clk) (b_expiresAt req) of
        Inl r \<Rightarrow> (r, db)
      | Inr setExpires \<Rightarrow>
          (case updateOne db (param_slug req)
                  (makeUpdateDoc e clk req n title' content' setExpires) of
             (matchedCount, modifiedCount, db') \<Rightarrow>
               (PUT_response e req n content' matchedCount modifiedCount, db')))"

text \<open>The \<open>try\<close> block of \<open>PUT\<close>, up to the authentication (lines 141 to 191).\<close>

definition PUT_try :: "env \<Rightarrow> clock \<Rightarrow> collection \<Rightarrow> request \<Rightarrow> response \<times> collection" where
  "PUT_try e clk db req =
     (case (b_title req, b_content req) of
        (Some title', Some content') \<Rightarrow>
          if title' = [] \<or> content' = []
          then (message 400 ''Title and content are required for update.'', db)
          else if isProfane e (title' @ '' '' @ content')
          then (message_error 400
                  ''Profanity detected in title or content. Please remove inappropriate language.''
                  ''Profanity detected'', db)
          else
            (case findOne db (param_slug req) of
               None \<Rightarrow> (message 404 ''Note not found.'', db)
             | Some n \<Rightarrow>
                 if isExpired n (at_expiry clk)
                 then (message 400 ''Cannot update an expired note.'', db)
                 else
                   (case passwordGate e n (b_currentPassword req)
                           ''Current password required to update this note.''
                           ''Incorrect password.'' of
                      Some r \<Rightarrow> (r, db)
                    | None \<Rightarrow> PUT_update e clk db req n title' content'))
      | _ \<Rightarrow> (message 400 ''Title and content are required for update.'', db))"

definition PUT ::
  "env \<Rightarrow> clock \<Rightarrow> rateLimitStore \<Rightarrow> collection \<Rightarrow> request
     \<Rightarrow> response \<times> rateLimitStore \<times> collection" where
  "PUT e clk store db req =
     (case applyRateLimit store (clientAddress (ip req) (forwarded req)) (now_ms clk) of
        (Some r, store') \<Rightarrow> (r, store', db)
      | (None, store') \<Rightarrow> (case PUT_try e clk db req of (r, db') \<Rightarrow> (r, store', db')))"

subsection \<open>Allocating a slug: \<open>generateUniqueSlug\<close> of \<open>route.ts\<close>\<close>

text \<open>
  White space of \<open>\s\<close> and of \<open>trim\<close> among the code units below 256: tab, line feed,
  vertical tab, form feed, carriage return, space and no-break space.
\<close>

definition isSpace :: "char \<Rightarrow> bool" where
  "isSpace c = (of_char c \<in> {9, 10, 11, 12, 13, 32, 160 :: nat})"

definition trim :: "string \<Rightarrow> string" where
  "trim s = rev (dropWhile isSpace (rev (dropWhile isSpace s)))"

text \<open>
  \<open>toLowerCase\<close> on one code unit below 256: the letters \<open>A\<close> to \<open>Z\<close> and the capital
  letters of Latin-1 (192 to 222 but the multiplication sign 215) move up by 32.
\<close>

definition toLower :: "char \<Rightarrow> char" where
  "toLower c =
     (let n = of_char c :: nat
      in if (65 \<le> n \<and> n \<le> 90) \<or> (192 \<le> n \<and> n \<le> 222 \<and> n \<noteq> 215)
         then char_of (n + 32) else c)"

definition toLowerCase :: "string \<Rightarrow> string" where
  "toLowerCase s = map toLower s"

text \<open>\<open>replace(/\s+/g, '-')\<close>: every maximal run of white space becomes one hyphen.\<close>

function replaceSpaces :: "string \<Rightarrow> string" where
  "replaceSpaces [] = []"
| "replaceSpaces (c # cs) =
     (if isSpace c then CHR ''-'' # replaceSpaces (dropWhile isSpace cs)
      else c # replaceSpaces cs)"
  by pat_completeness auto
termination
  by (relation "measure length") (auto simp: length_dropWhile_le less_Suc_eq_le)

text \<open>The class \<open>[a-z0-9-]\<close>; \<open>replace(/[^a-z0-9-]/g, '')\<close> keeps its members.\<close>

definition slugChar :: "char \<Rightarrow> bool" where
  "slugChar c =
     (let n = of_char c :: nat
      in (97 \<le> n \<and> n \<le> 122) \<or> (48 \<le> n \<and> n \<le> 57) \<or> n = 45)"

text \<open>The value of \<open>baseSlug\<close> when the loop starts (lines 49 to 53).\<close>

definition baseSlug :: "string option \<Rightarrow> string" where
  "baseSlug proposedSlug =
     (case proposedSlug of
        None \<Rightarrow> []
      | Some p \<Rightarrow>
          (let b = replaceSpaces (toLowerCase (trim p))
           in if b \<noteq> []
              then (let b' = filter slugChar b
                    in if length b' > 50 then take 50 b' else b')
              else []))"

definition MAX_ATTEMPTS :: nat where
  "MAX_ATTEMPTS = 5"

definition NANOID_SLUG_LENGTH :: nat where
  "NANOID_SLUG_LENGTH = 8"

text \<open>
  The body of the first loop up to the lookup: \<open>currentSlug\<close>, and the number of
  calls of \<open>nanoid\<close> made so far (\<open>k\<close> before the iteration).
\<close>

definition currentSlug :: "(nat \<Rightarrow> nat \<Rightarrow> string) \<Rightarrow> string \<Rightarrow> nat \<Rightarrow> nat \<Rightarrow> string \<times> nat" where
  "currentSlug nano base attempts k =
     (if base \<noteq> [] \<and> attempts > 0 then (base @ ''-'' @ nano k 4, Suc k)
      else if base = [] then (nano k NANOID_SLUG_LENGTH, Suc k)
      else (base, k))"

text \<open>
  The first loop, \<open>while (!isUnique && attempts < MAX_ATTEMPTS)\<close>: the slug found, or
  \<open>None\<close> when \<open>isUnique\<close> is still false at its end.
\<close>

function slugAttempts ::
  "(nat \<Rightarrow> nat \<Rightarrow> string) \<Rightarrow> collection \<Rightarrow> string \<Rightarrow> nat \<Rightarrow> nat \<Rightarrow> string option \<times> nat" where
  "slugAttempts nano db base attempts k =
     (if attempts < MAX_ATTEMPTS
      then (case findOne db (fst (currentSlug nano base attempts k)) of
              None \<Rightarrow> (Some (fst (currentSlug nano base attempts k)),
                        snd (currentSlug nano base attempts k))
            | Some existingNote \<Rightarrow>
                slugAttempts nano db base (attempts + 1) (snd (currentSlug nano base attempts k)))
      else (None, k))"
  by pat_completeness auto
termination
  by (relation "measure (\<lambda>(nano, db, base, attempts, k). MAX_ATTEMPTS - attempts)") auto

declare slugAttempts.simps [simp del]

text \<open>
  The fallback loop, \<open>while (!fallbackUnique)\<close>, has no bound: it returns when a
  random identifier is free, and \<open>None\<close> is the loop that never ends.
\<close>

partial_function (option) slugFallback ::
  "(nat \<Rightarrow> nat \<Rightarrow> string) \<Rightarrow> collection \<Rightarrow> nat \<Rightarrow> string option" where
  "slugFallback nano db k =
     (case findOne db (nano k NANOID_SLUG_LENGTH) of
        None \<Rightarrow> Some (nano k NANOID_SLUG_LENGTH)
      | Some existing \<Rightarrow> slugFallback nano db (Suc k))"

declare slugFallback.simps [code]

definition generateUniqueSlug ::
  "(nat \<Rightarrow> nat \<Rightarrow> string) \<Rightarrow> collection \<Rightarrow> string option \<Rightarrow> string option" where
  "generateUniqueSlug nano db proposedSlug =
     (case slugAttempts nano db (baseSlug proposedSlug) 0 0 of
        (Some finalSlug, k) \<Rightarrow> Some finalSlug
      | (None, k) \<Rightarrow> slugFallback nano db k)"

text \<open>
  The allocator as the specification describes it, to compare \<open>generateUniqueSlug\<close>
  with: the sequence of the slugs it tries. With a base, the base comes first, then
  the base with a hyphen and a random suffix of 4 characters for the rest of the 5
  attempts, then random identifiers of 8 characters without end; without a base, random
  identifiers of 8 characters all along. The \<open>k\<close>-th call of \<open>nanoid\<close> is \<open>nano k\<close>.
\<close>

definition spec_candidate :: "(nat \<Rightarrow> nat \<Rightarrow> string) \<Rightarrow> string \<Rightarrow> nat \<Rightarrow> string" where
  "spec_candidate nano base i =
     (if base = [] then nano i 8
      else if i = 0 then base
      else if i < 5 then base @ ''-'' @ nano (i - 1) 4
      else nano (i - 1) 8)"

subsection \<open>Creating a note: \<open>POST\<close> of \<open>route.ts\<close>\<close>

definition created :: "env \<Rightarrow> string \<Rightarrow> response" where
  "created e finalSlug =
     respond 201 (JObj [(''message'', JStr ''Note created successfully!''),
                        (''slug'', JStr finalSlug),
                        (''id'', JStr (insertedId e))])"

text \<open>
  The \<open>try\<close> block of \<open>POST\<close>. \<open>None\<close> is the request whose slug allocation never
  returns. The insertion is acknowledged.
\<close>

definition POST_try ::
  "env \<Rightarrow> clock \<Rightarrow> collection \<Rightarrow> request \<Rightarrow> (response \<times> collection) option" where
  "POST_try e clk db req =
     (case (b_title req, b_content req) of
        (Some title', Some content') \<Rightarrow>
          if title' = [] \<or> content' = []
          then Some (message 400 ''Title and content are required.'', db)
          else if isProfane e (title' @ '' '' @ content')
          then Some (message_error 400
                  ''Profanity detected in title or content. Please remove inappropriate language.''
                  ''Profanity detected'', db)
          else
            (case generateUniqueSlug (nanoid e) db (js_or (b_customSlug req) (Some title')) of
               None \<Rightarrow> None
             | Some finalSlug \<Rightarrow>
                 (let noteCreationTime = at_creation clk;
                      newNote = \<lparr>oid = insertedId e,
                                 slug = finalSlug,
                                 title = title',
                                 content = content',
                                 passwordHash =
                                   (if truthy (b_password req)
                                    then map_option (bcrypt_hash e) (b_password req)
                                    else None),
                                 createdAt = noteCreationTime,
                                 updatedAt = noteCreationTime,
                                 expiresAt = None,
                                 history = [\<lparr>h_content = content',
                                             h_timestamp = noteCreationTime\<rparr>]\<rparr>
                  in case b_expiresAt req of
                       Given s \<Rightarrow>
                         if s = [] then Some (created e finalSlug, insertOne db newNote)
                         else (let expirationDate = parseDate e s
                               in if date_gt expirationDate noteCreationTime
                                  then Some (created e finalSlug,
                                         insertOne db (newNote\<lparr>expiresAt := Some expirationDate\<rparr>))
                                  else Some (message 400 ''Expiration date must be in the future.'', db))
                     | _ \<Rightarrow> Some (created e finalSlug, insertOne db newNote)))
      | _ \<Rightarrow> Some (message 400 ''Title and content are required.'', db))"

definition POST ::
  "env \<Rightarrow> clock \<Rightarrow> rateLimitStore \<Rightarrow> collection \<Rightarrow> request
     \<Rightarrow> (response \<times> rateLimitStore \<times> collection) option" where
  "POST e clk store db req =
     (case rateLimit MAX_REQUESTS_PER_WINDOW_POST store
             (clientAddress (ip req) (forwarded req)) (now_ms clk) of
        (Some r, store') \<Rightarrow> Some (r, store', db)
      | (None, store') \<Rightarrow>
          (case POST_try e clk db req of
             None \<Rightarrow> None
           | Some (r, db') \<Rightarrow> Some (r, store', db')))"

subsection \<open>A concrete world for the examples\<close>

text \<open>
  Stand-ins for the library functions, to run the handlers on examples: nothing is
  profane, the digest of a password is the password after a \<open>#\<close>, every random
  identifier is a run of \<open>x\<close>, and a date is written as its decimal number of
  milliseconds.
\<close>

definition isDigit :: "char \<Rightarrow> bool" where
  "isDigit c = (48 \<le> (of_char c :: nat) \<and> (of_char c :: nat) \<le> 57)"

definition demo_parseDate :: "string \<Rightarrow> jsdate" where
  "demo_parseDate s =
     (if s \<noteq> [] \<and> list_all isDigit s
      then Instant (int (foldl (\<lambda>n c. 10 * n + (of_char c - 48)) 0 s))
      else InvalidDate)"

definition demo_env :: env where
  "demo_env =
     \<lparr>isProfane = (\<lambda>text. False),
      bcrypt_compare = (\<lambda>p h. h = CHR ''#'' # p),
      bcrypt_hash = (\<lambda>p. CHR ''#'' # p),
      nanoid = (\<lambda>k n. replicate n CHR ''x''),
      parseDate = demo_parseDate,
      toISOString = decimal,
      insertedId = ''id1''\<rparr>"

definition demo_clock :: clock where
  "demo_clock =
     \<lparr>now_ms = 1000, at_expiry = 1000, at_update = 1000, at_expiration = 1000,
      at_history = 1000, at_creation = 1000\<rparr>"

definition demo_request :: request where
  "demo_request =
     \<lparr>ip = Some ''10.0.0.1'', forwarded = None, authorization = None, param_slug = ''s'',
      b_title = Some ''T'', b_content = Some ''B'', b_password = None, b_customSlug = None,
      b_currentPassword = None, b_newPassword = None, b_expiresAt = Omitted\<rparr>"

definition demo_note :: Note where
  "demo_note =
     \<lparr>oid = ''id0'', slug = ''s'', title = ''T'', content = ''A'', passwordHash = None,
      createdAt = 0, updatedAt = 0, expiresAt = None,
      history = [\<lparr>h_content = ''A'', h_timestamp = 0\<rparr>]\<rparr>"

section \<open>Properties\<close>

subsection \<open>Basic facts\<close>

lemma status_respond [simp]: "status (respond st b) = st"
  by (simp add: respond_def)

lemma status_message [simp]: "status (message st m) = st"
  by (simp add: message_def)

lemma status_message_error [simp]: "status (message_error st m x) = st"
  by (simp add: message_error_def)

lemma status_tooManyRequests [simp]: "status (tooManyRequests s) = 429"
  by (simp add: tooManyRequests_def)

lemma message_eq_iff [simp]: "(message st m = message st' m') = (st = st' \<and> m = m')"
  by (auto simp: message_def respond_def)

text \<open>A request that the limiter lets through is answered by the \<open>try\<close> block.\<close>

lemma GET_passed:
  "fst (applyRateLimit store (clientAddress (ip req) (forwarded req)) (now_ms clk)) = None
   \<Longrightarrow> fst (GET e clk store db req) = GET_try e clk db req"
  by (auto simp: GET_def split: prod.splits option.splits)

lemma GET_history_passed:
  "fst (applyRateLimit store (clientAddress (ip req) (forwarded req)) (now_ms clk)) = None
   \<Longrightarrow> fst (GET_history e clk store db req) = GET_history_try e clk db req"
  by (auto simp: GET_history_def split: prod.splits option.splits)

lemma PUT_passed:
  "fst (applyRateLimit store (clientAddress (ip req) (forwarded req)) (now_ms clk)) = None
   \<Longrightarrow> fst (PUT e clk store db req) = fst (PUT_try e clk db req)
     \<and> snd (snd (PUT e clk store db req)) = snd (PUT_try e clk db req)"
  by (auto simp: PUT_def split: prod.splits option.splits)

text \<open>The first request of an address passes the limiter.\<close>

lemma demo_passes:
  "fst (applyRateLimit Map.empty (clientAddress (ip demo_request) (forwarded demo_request))
          (now_ms demo_clock)) = None"
  by (simp add: applyRateLimit_def rateLimit_def Let_def MAX_REQUESTS_PER_WINDOW_def)

subsection \<open>The rate limiter\<close>

lemma rateLimit_step:
  assumes "rateLimit m store a now = (r, store')"
  shows "\<exists>d. store' a = Some d
       \<and> (case store a of
            None \<Rightarrow> count d = 1 \<and> lastReset d = now
          | Some d0 \<Rightarrow> if now - lastReset d0 > WINDOW_SIZE_MS
                       then count d = 1 \<and> lastReset d = now
                       else count d = count d0 + 1 \<and> lastReset d = lastReset d0)
       \<and> r = (if count d > m then Some (tooManyRequests (timeLeft (lastReset d) now)) else None)"
proof -
  define d0 where "d0 = (case store a of Some d \<Rightarrow> d | None \<Rightarrow> \<lparr>count = 0, lastReset = now\<rparr>)"
  define d1 where "d1 = (if now - lastReset d0 > WINDOW_SIZE_MS
                         then \<lparr>count = 0, lastReset = now\<rparr> else d0)"
  define d2 where "d2 = d1\<lparr>count := count d1 + 1\<rparr>"
  from assms have st: "store' = store(a \<mapsto> d2)"
    and r: "r = (if count d2 > m then Some (tooManyRequests (timeLeft (lastReset d2) now)) else None)"
    by (auto simp: rateLimit_def Let_def d0_def d1_def d2_def split: if_splits)
  have "case store a of
            None \<Rightarrow> count d2 = 1 \<and> lastReset d2 = now
          | Some d0 \<Rightarrow> if now - lastReset d0 > WINDOW_SIZE_MS
                       then count d2 = 1 \<and> lastReset d2 = now
                       else count d2 = count d0 + 1 \<and> lastReset d2 = lastReset d0"
    by (simp add: d0_def d1_def d2_def split: option.splits)
  with st r show ?thesis by simp
qed

lemma rateLimit_others:
  assumes "rateLimit m store a now = (r, store')" and "b \<noteq> a"
  shows "store' b = store b"
  using assms
  by (auto simp: rateLimit_def Let_def split: option.splits if_splits)

text \<open>
  Requests that all arrive within the window of the counter: the \<open>i\<close>-th of them
  (from 0) is rejected exactly when the counter it finds, plus one, exceeds the maximum;
  each of them, rejected or not, adds one to the counter and none resets it.
\<close>

lemma serve_window:
  assumes "store a = Some d0"
      and "\<forall>t\<in>set ts. t - lastReset d0 \<le> WINDOW_SIZE_MS"
      and "serve m store a ts = (rs, store')"
  shows "length rs = length ts
       \<and> (\<forall>i<length ts. (rs ! i \<noteq> None) = (count d0 + i + 1 > m))
       \<and> (\<exists>d. store' a = Some d \<and> count d = count d0 + length ts \<and> lastReset d = lastReset d0)"
  using assms
proof (induction ts arbitrary: store d0 rs store')
  case Nil
  then show ?case by simp
next
  case (Cons t ts)
  obtain r st1 where step: "rateLimit m store a t = (r, st1)" by (cases "rateLimit m store a t")
  obtain rs1 st2 where rest: "serve m st1 a ts = (rs1, st2)" by (cases "serve m st1 a ts")
  from Cons.prems(3) step rest have rs: "rs = r # rs1" and st: "store' = st2" by auto
  from Cons.prems(2) have tw: "\<not> t - lastReset d0 > WINDOW_SIZE_MS" by auto
  from rateLimit_step[OF step] Cons.prems(1) tw
  obtain d1 where d1: "st1 a = Some d1" "count d1 = count d0 + 1" "lastReset d1 = lastReset d0"
    and r: "r = (if count d1 > m then Some (tooManyRequests (timeLeft (lastReset d1) t)) else None)"
    by auto
  from Cons.prems(2) d1 have w1: "\<forall>t\<in>set ts. t - lastReset d1 \<le> WINDOW_SIZE_MS" by simp
  from Cons.IH[OF d1(1) w1 rest]
  have ih: "length rs1 = length ts"
    "\<forall>i<length ts. (rs1 ! i \<noteq> None) = (count d1 + i + 1 > m)"
    "\<exists>d. st2 a = Some d \<and> count d = count d1 + length ts \<and> lastReset d = lastReset d1"
    by auto
  have "\<forall>i<length (t # ts). ((r # rs1) ! i \<noteq> None) = (count d0 + i + 1 > m)"
  proof (intro allI impI)
    fix i assume "i < length (t # ts)"
    show "((r # rs1) ! i \<noteq> None) = (count d0 + i + 1 > m)"
    proof (cases i)
      case 0
      then show ?thesis using r d1 by simp
    next
      case (Suc j)
      then show ?thesis using ih(2) d1 \<open>i < length (t # ts)\<close> by simp
    qed
  qed
  then show ?case using ih d1 rs st by simp
qed

text \<open>Every handler starts with the limiter, on the map of its own route file.\<close>

lemma handlers_limited:
  "(case rateLimit MAX_REQUESTS_PER_WINDOW store
           (clientAddress (ip req) (forwarded req)) (now_ms clk) of
      (Some r, store') \<Rightarrow>
         GET e clk store db req = (r, store') \<and> GET_history e clk store db req = (r, store')
         \<and> PUT e clk store db req = (r, store', db)
    | (None, store') \<Rightarrow>
         GET e clk store db req = (GET_try e clk db req, store')
         \<and> GET_history e clk store db req = (GET_history_try e clk db req, store')
         \<and> PUT e clk store db req
             = (fst (PUT_try e clk db req), store', snd (PUT_try e clk db req)))
   \<and> (case rateLimit MAX_REQUESTS_PER_WINDOW_POST store
             (clientAddress (ip req) (forwarded req)) (now_ms clk) of
      (Some r, store') \<Rightarrow> POST e clk store db req = Some (r, store', db)
    | (None, store') \<Rightarrow>
         POST e clk store db req
           = map_option (\<lambda>(r, db'). (r, store', db')) (POST_try e clk db req))"
  by (auto simp: GET_def GET_history_def PUT_def POST_def applyRateLimit_def
           split: prod.splits option.splits)

text \<open>
  Claim C10. The maxima are 10 for the \<open>[slug]\<close> routes and 5 for \<open>POST\<close>, the window
  is 60 seconds. Every handler runs the limiter with its maximum on every request and
  returns the map the limiter leaves, whether the request is rejected or not; it
  answers with the limiter's response when there is one (and leaves the collection
  alone), and with its \<open>try\<close> block otherwise.
  One request at time \<open>now\<close> from address \<open>a\<close>: the counter stored for \<open>a\<close> afterwards
  is 1, with \<open>lastReset = now\<close>, when \<open>a\<close> was unknown or its last reset is more than
  the window ago (the reset to zero, then the increment); otherwise it is the old
  counter plus one, with the old \<open>lastReset\<close>. The request is rejected exactly when that
  incremented counter exceeds the maximum, and the rejection has status 429 and the
  header \<open>Retry-After\<close>; no other address is touched. For a run of requests within the
  window of the counter, the \<open>i\<close>-th is rejected exactly when the counter has passed
  the maximum, and the counter grows with each: a saturated client stays blocked.
\<close>

theorem rate_limiter:
  "MAX_REQUESTS_PER_WINDOW = 10 \<and> MAX_REQUESTS_PER_WINDOW_POST = 5 \<and> WINDOW_SIZE_MS = 60000
   \<and> (\<forall>r0 st0. rateLimit MAX_REQUESTS_PER_WINDOW store
                   (clientAddress (ip req) (forwarded req)) (now_ms clk) = (r0, st0) \<longrightarrow>
         GET e clk store db req
           = ((case r0 of Some x \<Rightarrow> x | None \<Rightarrow> GET_try e clk db req), st0)
         \<and> GET_history e clk store db req
           = ((case r0 of Some x \<Rightarrow> x | None \<Rightarrow> GET_history_try e clk db req), st0)
         \<and> PUT e clk store db req
           = (case r0 of Some x \<Rightarrow> (x, st0, db)
              | None \<Rightarrow> (fst (PUT_try e clk db req), st0, snd (PUT_try e clk db req))))
   \<and> (\<forall>r0 st0. rateLimit MAX_REQUESTS_PER_WINDOW_POST store
                   (clientAddress (ip req) (forwarded req)) (now_ms clk) = (r0, st0) \<longrightarrow>
         POST e clk store db req
           = (case r0 of Some x \<Rightarrow> Some (x, st0, db)
              | None \<Rightarrow> map_option (\<lambda>(x, db'). (x, st0, db')) (POST_try e clk db req)))
   \<and> (rateLimit m store a now = (r, store') \<longrightarrow>
        (\<exists>d. store' a = Some d
           \<and> (case store a of
                None \<Rightarrow> count d = 1 \<and> lastReset d = now
              | Some d0 \<Rightarrow> if now - lastReset d0 > WINDOW_SIZE_MS
                           then count d = 1 \<and> lastReset d = now
                           else count d = count d0 + 1 \<and> lastReset d = lastReset d0)
           \<and> (r \<noteq> None) = (count d > m)
           \<and> (\<forall>resp. r = Some resp \<longrightarrow>
                 status resp = 429
                 \<and> headers resp = [(''Retry-After'', decimal (timeLeft (lastReset d) now))]))
        \<and> (\<forall>b. b \<noteq> a \<longrightarrow> store' b = store b))
   \<and> (store a = Some d0 \<and> (\<forall>t\<in>set ts. t - lastReset d0 \<le> WINDOW_SIZE_MS)
        \<and> serve m store a ts = (rs, store'') \<longrightarrow>
        length rs = length ts
        \<and> (\<forall>i<length ts. (rs ! i \<noteq> None) = (count d0 + i + 1 > m))
        \<and> (\<exists>d. store'' a = Some d \<and> count d = count d0 + length ts
                 \<and> lastReset d = lastReset d0))"
proof -
  have A: "MAX_REQUESTS_PER_WINDOW = 10 \<and> MAX_REQUESTS_PER_WINDOW_POST = 5
           \<and> WINDOW_SIZE_MS = 60000"
    by (simp add: MAX_REQUESTS_PER_WINDOW_def MAX_REQUESTS_PER_WINDOW_POST_def
          WINDOW_SIZE_MS_def)
  have H1: "\<forall>r0 st0. rateLimit MAX_REQUESTS_PER_WINDOW store
                   (clientAddress (ip req) (forwarded req)) (now_ms clk) = (r0, st0) \<longrightarrow>
         GET e clk store db req
           = ((case r0 of Some x \<Rightarrow> x | None \<Rightarrow> GET_try e clk db req), st0)
         \<and> GET_history e clk store db req
           = ((case r0 of Some x \<Rightarrow> x | None \<Rightarrow> GET_history_try e clk db req), st0)
         \<and> PUT e clk store db req
           = (case r0 of Some x \<Rightarrow> (x, st0, db)
              | None \<Rightarrow> (fst (PUT_try e clk db req), st0, snd (PUT_try e clk db req)))"
    by (simp add: GET_def GET_history_def PUT_def applyRateLimit_def
             split: option.splits prod.splits)
  have H2: "\<forall>r0 st0. rateLimit MAX_REQUESTS_PER_WINDOW_POST store
                   (clientAddress (ip req) (forwarded req)) (now_ms clk) = (r0, st0) \<longrightarrow>
         POST e clk store db req
           = (case r0 of Some x \<Rightarrow> Some (x, st0, db)
              | None \<Rightarrow> map_option (\<lambda>(x, db'). (x, st0, db')) (POST_try e clk db req))"
    by (auto simp: POST_def split: option.splits prod.splits)
  have B: "rateLimit m store a now = (r, store') \<longrightarrow>
        (\<exists>d. store' a = Some d
           \<and> (case store a of
                None \<Rightarrow> count d = 1 \<and> lastReset d = now
              | Some d0 \<Rightarrow> if now - lastReset d0 > WINDOW_SIZE_MS
                           then count d = 1 \<and> lastReset d = now
                           else count d = count d0 + 1 \<and> lastReset d = lastReset d0)
           \<and> (r \<noteq> None) = (count d > m)
           \<and> (\<forall>resp. r = Some resp \<longrightarrow>
                 status resp = 429
                 \<and> headers resp = [(''Retry-After'', decimal (timeLeft (lastReset d) now))]))
        \<and> (\<forall>b. b \<noteq> a \<longrightarrow> store' b = store b)"
  proof
    assume h: "rateLimit m store a now = (r, store')"
    from rateLimit_step[OF h] obtain d where d: "store' a = Some d"
      "(case store a of
                None \<Rightarrow> count d = 1 \<and> lastReset d = now
              | Some d0 \<Rightarrow> if now - lastReset d0 > WINDOW_SIZE_MS
                           then count d = 1 \<and> lastReset d = now
                           else count d = count d0 + 1 \<and> lastReset d = lastReset d0)"
      "r = (if count d > m then Some (tooManyRequests (timeLeft (lastReset d) now)) else None)"
      by blast
    have "(r \<noteq> None) = (count d > m)" using d(3) by simp
    moreover have "\<forall>resp. r = Some resp \<longrightarrow>
                 status resp = 429
                 \<and> headers resp = [(''Retry-After'', decimal (timeLeft (lastReset d) now))]"
      using d(3) by (auto simp: tooManyRequests_def split: if_splits)
    moreover have "\<forall>b. b \<noteq> a \<longrightarrow> store' b = store b"
      using rateLimit_others[OF h] by blast
    ultimately show "(\<exists>d. store' a = Some d
           \<and> (case store a of
                None \<Rightarrow> count d = 1 \<and> lastReset d = now
              | Some d0 \<Rightarrow> if now - lastReset d0 > WINDOW_SIZE_MS
                           then count d = 1 \<and> lastReset d = now
                           else count d = count d0 + 1 \<and> lastReset d = lastReset d0)
           \<and> (r \<noteq> None) = (count d > m)
           \<and> (\<forall>resp. r = Some resp \<longrightarrow>
                 status resp = 429
                 \<and> headers resp = [(''Retry-After'', decimal (timeLeft (lastReset d) now))]))
        \<and> (\<forall>b. b \<noteq> a \<longrightarrow> store' b = store b)"
      using d(1,2) by blast
  qed
  have C: "store a = Some d0 \<and> (\<forall>t\<in>set ts. t - lastReset d0 \<le> WINDOW_SIZE_MS)
        \<and> serve m store a ts = (rs, store'') \<longrightarrow>
        length rs = length ts
        \<and> (\<forall>i<length ts. (rs ! i \<noteq> None) = (count d0 + i + 1 > m))
        \<and> (\<exists>d. store'' a = Some d \<and> count d = count d0 + length ts
                 \<and> lastReset d = lastReset d0)"
    using serve_window by blast
  show ?thesis
    by (rule conjI[OF A[THEN conjunct1] conjI[OF A[THEN conjunct2, THEN conjunct1]
          conjI[OF A[THEN conjunct2, THEN conjunct2] conjI[OF H1 conjI[OF H2 conjI[OF B C]]]]]])
qed

theorem rate_limiter_witness:
  "rateLimit 10 [''10.0.0.1'' \<mapsto> \<lparr>count = 10, lastReset = 0\<rparr>] ''10.0.0.1'' 1000
     = (Some (tooManyRequests 59), [''10.0.0.1'' \<mapsto> \<lparr>count = 11, lastReset = 0\<rparr>])
   \<and> serve 10 [''10.0.0.1'' \<mapsto> \<lparr>count = 10, lastReset = 0\<rparr>] ''10.0.0.1'' [1000, 2000]
     = ([Some (tooManyRequests 59), Some (tooManyRequests 58)],
        [''10.0.0.1'' \<mapsto> \<lparr>count = 12, lastReset = 0\<rparr>])
   \<and> GET demo_env demo_clock [''10.0.0.1'' \<mapsto> \<lparr>count = 10, lastReset = 0\<rparr>] [demo_note] demo_request
     = (tooManyRequests 59, [''10.0.0.1'' \<mapsto> \<lparr>count = 11, lastReset = 0\<rparr>])
   \<and> POST demo_env demo_clock [''10.0.0.1'' \<mapsto> \<lparr>count = 10, lastReset = 0\<rparr>] [demo_note] demo_request
     = Some (tooManyRequests 59, [''10.0.0.1'' \<mapsto> \<lparr>count = 11, lastReset = 0\<rparr>], [demo_note])
   \<and> GET demo_env demo_clock Map.empty [demo_note] demo_request
     = (GET_try demo_env demo_clock [demo_note] demo_request,
        [''10.0.0.1'' \<mapsto> \<lparr>count = 1, lastReset = 1000\<rparr>])
   \<and> POST demo_env demo_clock Map.empty [demo_note] demo_request
     = map_option (\<lambda>(x, db'). (x, [''10.0.0.1'' \<mapsto> \<lparr>count = 1, lastReset = 1000\<rparr>], db'))
         (POST_try demo_env demo_clock [demo_note] demo_request)
   \<and> status (tooManyRequests 59) = 429
   \<and> headers (tooManyRequests 59) = [(''Retry-After'', decimal 59)]"
proof -
  let ?S = "[''10.0.0.1'' \<mapsto> \<lparr>count = 10, lastReset = 0\<rparr>]"
  let ?S1 = "[''10.0.0.1'' \<mapsto> \<lparr>count = 11, lastReset = 0\<rparr>]"
  let ?S2 = "[''10.0.0.1'' \<mapsto> \<lparr>count = 12, lastReset = 0\<rparr>]"
  let ?F = "[''10.0.0.1'' \<mapsto> \<lparr>count = 1, lastReset = 1000\<rparr>]"
  have h1: "rateLimit 10 ?S ''10.0.0.1'' 1000 = (Some (tooManyRequests 59), ?S1)"
    by (simp add: rateLimit_def timeLeft_def WINDOW_SIZE_MS_def Let_def)
  have h1': "rateLimit 10 ?S1 ''10.0.0.1'' 2000 = (Some (tooManyRequests 58), ?S2)"
    by (simp add: rateLimit_def timeLeft_def WINDOW_SIZE_MS_def Let_def)
  have h2: "serve 10 ?S ''10.0.0.1'' [1000, 2000]
     = ([Some (tooManyRequests 59), Some (tooManyRequests 58)], ?S2)"
    by (simp add: h1 h1')
  have a: "clientAddress (ip demo_request) (forwarded demo_request) = ''10.0.0.1''"
    by (simp add: clientAddress_def demo_request_def js_or_def truthy_def)
  have h3: "rateLimit MAX_REQUESTS_PER_WINDOW ?S
                   (clientAddress (ip demo_request) (forwarded demo_request)) (now_ms demo_clock)
             = (Some (tooManyRequests 59), ?S1)"
    using h1 by (simp add: a MAX_REQUESTS_PER_WINDOW_def demo_clock_def)
  have h4: "rateLimit MAX_REQUESTS_PER_WINDOW_POST ?S
                   (clientAddress (ip demo_request) (forwarded demo_request)) (now_ms demo_clock)
             = (Some (tooManyRequests 59), ?S1)"
    by (simp add: a MAX_REQUESTS_PER_WINDOW_POST_def demo_clock_def rateLimit_def timeLeft_def
          WINDOW_SIZE_MS_def Let_def)
  have h5: "rateLimit MAX_REQUESTS_PER_WINDOW Map.empty
                   (clientAddress (ip demo_request) (forwarded demo_request)) (now_ms demo_clock)
             = (None, ?F)"
    by (simp add: a MAX_REQUESTS_PER_WINDOW_def demo_clock_def rateLimit_def Let_def)
  have h6: "rateLimit MAX_REQUESTS_PER_WINDOW_POST Map.empty
                   (clientAddress (ip demo_request) (forwarded demo_request)) (now_ms demo_clock)
             = (None, ?F)"
    by (simp add: a MAX_REQUESTS_PER_WINDOW_POST_def demo_clock_def rateLimit_def Let_def)
  note T = rate_limiter[where m=10 and store="?S" and a="''10.0.0.1''" and now=1000
      and r="Some (tooManyRequests 59)" and store'="?S1" and req=demo_request and clk=demo_clock
      and e=demo_env and db="[demo_note]" and ?d0.0="\<lparr>count = 10, lastReset = 0\<rparr>"
      and ts="[1000, 2000]" and rs="[Some (tooManyRequests 59), Some (tooManyRequests 58)]"
      and store''="?S2"]
  note T0 = rate_limiter[where m=10 and store="Map.empty" and a="''10.0.0.1''" and now=1000
      and r="None" and store'="?F" and req=demo_request and clk=demo_clock
      and e=demo_env and db="[demo_note]" and ?d0.0="\<lparr>count = 10, lastReset = 0\<rparr>"
      and ts="[]" and rs="[]" and store''="Map.empty"]
  note TH = T[THEN conjunct2, THEN conjunct2, THEN conjunct2]
  note TH0 = T0[THEN conjunct2, THEN conjunct2, THEN conjunct2]
  from TH[THEN conjunct1, rule_format, OF h3]
  have g: "GET demo_env demo_clock ?S [demo_note] demo_request = (tooManyRequests 59, ?S1)"
    by simp
  from TH[THEN conjunct2, THEN conjunct1, rule_format, OF h4]
  have p: "POST demo_env demo_clock ?S [demo_note] demo_request
     = Some (tooManyRequests 59, ?S1, [demo_note])"
    by simp
  from TH0[THEN conjunct1, rule_format, OF h5]
  have g0: "GET demo_env demo_clock Map.empty [demo_note] demo_request
     = (GET_try demo_env demo_clock [demo_note] demo_request, ?F)"
    by simp
  from TH0[THEN conjunct2, THEN conjunct1, rule_format, OF h6]
  have p0: "POST demo_env demo_clock Map.empty [demo_note] demo_request
     = map_option (\<lambda>(x, db'). (x, ?F, db')) (POST_try demo_env demo_clock [demo_note] demo_request)"
    by simp
  from TH[THEN conjunct2, THEN conjunct2, THEN conjunct1, rule_format, OF h1]
  have s: "status (tooManyRequests 59) = 429
           \<and> headers (tooManyRequests 59) = [(''Retry-After'', decimal 59)]"
    by (simp add: timeLeft_def WINDOW_SIZE_MS_def)
  show ?thesis
    by (rule conjI[OF h1 conjI[OF h2 conjI[OF g conjI[OF p conjI[OF g0 conjI[OF p0 s]]]]]])
qed

subsection \<open>Expired notes\<close>

text \<open>
  Claim C1, as stated: an expired note gets, from \<open>GET\<close> and from \<open>PUT\<close>, the error
  category of a slug that has no note. It fails for \<open>PUT\<close>: with a note under the slug
  \<open>s\<close> that expired at 500, at time 1000, the update is answered with status 400, and
  the same update of a slug without a note with status 404.
\<close>

theorem expired_update_counterexample:
  "expiresAt (demo_note\<lparr>expiresAt := Some (Instant 500)\<rparr>) = Some (Instant 500)
   \<and> (500 :: int) \<le> at_expiry demo_clock
   \<and> findOne [] (param_slug demo_request) = None
   \<and> findOne [demo_note\<lparr>expiresAt := Some (Instant 500)\<rparr>] (param_slug demo_request)
       = Some (demo_note\<lparr>expiresAt := Some (Instant 500)\<rparr>)
   \<and> status (fst (PUT demo_env demo_clock Map.empty
                    [demo_note\<lparr>expiresAt := Some (Instant 500)\<rparr>] demo_request)) = 400
   \<and> status (fst (PUT demo_env demo_clock Map.empty [] demo_request)) = 404"
proof -
  let ?n = "demo_note\<lparr>expiresAt := Some (Instant 500)\<rparr>"
  have a: "fst (PUT_try demo_env demo_clock [?n] demo_request)
             = message 400 ''Cannot update an expired note.''"
    by (simp add: PUT_try_def findOne_def isExpired_def demo_note_def
          demo_request_def demo_env_def demo_clock_def)
  have b: "fst (PUT_try demo_env demo_clock [] demo_request) = message 404 ''Note not found.''"
    by (simp add: PUT_try_def findOne_def demo_request_def demo_env_def)
  have c: "findOne [?n] (param_slug demo_request) = Some ?n"
    by (simp add: findOne_def demo_note_def demo_request_def)
  show ?thesis
    using PUT_passed[OF demo_passes, of demo_env "[?n]"] PUT_passed[OF demo_passes, of demo_env "[]"]
    by (simp add: a b c) (simp add: findOne_def demo_clock_def)
qed

text \<open>
  Claim C1, amended. For a request that passes the limiter and a note whose
  \<open>expiresAt\<close> is an instant not after the time of the check: \<open>GET\<close> answers with
  status 404 and the message ``Note has expired.'', and a slug without a note gets
  status 404 with the message ``Note not found.''; \<open>PUT\<close> with a title and a content
  that pass its validation answers with status 400 and the message ``Cannot update an
  expired note.'' and leaves the collection as it is, and a slug without a note gets
  status 404.
\<close>

theorem expired_note_responses:
  assumes pass: "fst (applyRateLimit store (clientAddress (ip req) (forwarded req))
                        (now_ms clk)) = None"
      and found: "findOne db (param_slug req) = Some n"
      and exp: "expiresAt n = Some (Instant t)" "t \<le> at_expiry clk"
      and absent: "findOne db0 (param_slug req) = None"
  shows "fst (GET e clk store db req) = message 404 ''Note has expired.''
       \<and> fst (GET e clk store db0 req) = message 404 ''Note not found.''
       \<and> (\<forall>ti c. b_title req = Some ti \<and> ti \<noteq> [] \<and> b_content req = Some c \<and> c \<noteq> []
                 \<and> \<not> isProfane e (ti @ '' '' @ c) \<longrightarrow>
              fst (PUT e clk store db req) = message 400 ''Cannot update an expired note.''
            \<and> snd (snd (PUT e clk store db req)) = db
            \<and> fst (PUT e clk store db0 req) = message 404 ''Note not found.''
            \<and> snd (snd (PUT e clk store db0 req)) = db0)"
proof -
  have ex: "isExpired n (at_expiry clk)" using exp by (simp add: isExpired_def)
  have g1: "fst (GET e clk store db req) = message 404 ''Note has expired.''"
    using found ex by (simp add: GET_passed[OF pass] GET_try_def)
  have g2: "fst (GET e clk store db0 req) = message 404 ''Note not found.''"
    using absent by (simp add: GET_passed[OF pass] GET_try_def)
  have p: "\<forall>ti c. b_title req = Some ti \<and> ti \<noteq> [] \<and> b_content req = Some c \<and> c \<noteq> []
                 \<and> \<not> isProfane e (ti @ '' '' @ c) \<longrightarrow>
              fst (PUT e clk store db req) = message 400 ''Cannot update an expired note.''
            \<and> snd (snd (PUT e clk store db req)) = db
            \<and> fst (PUT e clk store db0 req) = message 404 ''Note not found.''
            \<and> snd (snd (PUT e clk store db0 req)) = db0"
    using found ex absent
    by (auto simp: PUT_passed[OF pass] PUT_try_def)
  from g1 g2 p show ?thesis by blast
qed

theorem expired_note_responses_witness:
  "fst (applyRateLimit Map.empty (clientAddress (ip demo_request) (forwarded demo_request))
          (now_ms demo_clock)) = None
   \<and> findOne [demo_note\<lparr>expiresAt := Some (Instant 500)\<rparr>] (param_slug demo_request)
       = Some (demo_note\<lparr>expiresAt := Some (Instant 500)\<rparr>)
   \<and> expiresAt (demo_note\<lparr>expiresAt := Some (Instant 500)\<rparr>) = Some (Instant 500)
   \<and> (500 :: int) \<le> at_expiry demo_clock
   \<and> findOne [] (param_slug demo_request) = None
   \<and> fst (GET demo_env demo_clock Map.empty
             [demo_note\<lparr>expiresAt := Some (Instant 500)\<rparr>] demo_request)
       = message 404 ''Note has expired.''
   \<and> fst (GET demo_env demo_clock Map.empty [] demo_request) = message 404 ''Note not found.''
   \<and> fst (PUT demo_env demo_clock Map.empty
             [demo_note\<lparr>expiresAt := Some (Instant 500)\<rparr>] demo_request)
       = message 400 ''Cannot update an expired note.''
   \<and> fst (PUT demo_env demo_clock Map.empty [] demo_request) = message 404 ''Note not found.''"
proof -
  let ?n = "demo_note\<lparr>expiresAt := Some (Instant 500)\<rparr>"
  have f: "findOne [?n] (param_slug demo_request) = Some ?n"
    by (simp add: findOne_def demo_note_def demo_request_def)
  have x: "expiresAt ?n = Some (Instant 500)" by simp
  have t: "(500 :: int) \<le> at_expiry demo_clock" by (simp add: demo_clock_def)
  have a: "findOne [] (param_slug demo_request) = None" by (simp add: findOne_def)
  have b: "b_title demo_request = Some ''T'' \<and> ''T'' \<noteq> [] \<and> b_content demo_request = Some ''B''
           \<and> ''B'' \<noteq> [] \<and> \<not> isProfane demo_env (''T'' @ '' '' @ ''B'')"
    by (simp add: demo_request_def demo_env_def)
  from expired_note_responses[OF demo_passes f x t a, of demo_env] b demo_passes f x t a
  show ?thesis by blast
qed

subsection \<open>The password gate\<close>

lemma passwordGate_cases:
  "passwordGate e n supplied required invalid =
     (if \<not> isProtected n then None
      else if \<not> truthy supplied then Some (message 401 required)
      else if bcrypt_compare e (the supplied) (the (passwordHash n)) then None
      else Some (message 401 invalid))"
  by (auto simp: passwordGate_def isProtected_def truthy_def split: option.splits)

lemma GET_respond_status: "status (GET_respond e n) \<noteq> 401"
  by (simp add: GET_respond_def)

lemma resolveExpiresAt_Inl:
  "resolveExpiresAt e now x = Inl r \<Longrightarrow> r = message 400 ''Expiration date must be in the future.''"
  by (cases x) (auto simp: resolveExpiresAt_def Let_def split: if_splits)

lemma PUT_response_status: "status (PUT_response e req n c m1 m2) \<noteq> 401"
  by (cases "sameExpiresAt e n (b_expiresAt req)")
     (auto simp: PUT_response_def split: bool.splits)

lemma PUT_update_status: "status (fst (PUT_update e clk db req n ti c)) \<noteq> 401"
proof (cases "resolveExpiresAt e (at_expiration clk) (b_expiresAt req)")
  case (Inl r)
  then show ?thesis using resolveExpiresAt_Inl[OF Inl] by (simp add: PUT_update_def)
next
  case (Inr setExpires)
  then show ?thesis
    by (simp add: PUT_update_def PUT_response_status split: prod.splits)
qed

text \<open>
  What \<open>GET\<close> verifies is the second piece of the \<open>Authorization\<close> header when the
  header is split at its spaces: the part of a credential after a space is not read,
  and a header with nothing after the first space has no credential.
\<close>

lemma bearerToken_examples:
  "bearerToken (Some ''Bearer pw'') = Some ''pw''
   \<and> bearerToken (Some ''Bearer a b'') = Some ''a''
   \<and> bearerToken (Some ''Bearer '') = Some []
   \<and> bearerToken (Some ''Bearer'') = None
   \<and> bearerToken None = None"
  by (simp add: bearerToken_def at_index_def)

text \<open>
  The gate in terms of the credential the handler reads. For a request that passes the
  limiter and a stored note that has not expired (and, for \<open>PUT\<close>, a title and a
  content that pass its validation): a note without a digest is read (\<open>GET_respond\<close>)
  or updated (\<open>PUT_update\<close>) whatever comes with the request; a note with a digest and
  no credential read gets status 401 with the message ``Password required.''
  (``Current password required to update this note.'' for \<open>PUT\<close>); with a credential
  read, it gets status 401 with the message ``Invalid password.'' (``Incorrect
  password.'') exactly when \<open>bcrypt.compare\<close> of that credential and the digest is
  false, and is read or updated otherwise. Reading and updating never answer with
  status 401 themselves. The credential \<open>GET\<close> reads is \<open>bearerToken\<close> of the
  \<open>Authorization\<close> header, that of \<open>PUT\<close> the field \<open>currentPassword\<close> of the body.
\<close>

lemma access_gate:
  assumes pass: "fst (applyRateLimit store (clientAddress (ip req) (forwarded req))
                        (now_ms clk)) = None"
      and found: "findOne db (param_slug req) = Some n"
      and live: "\<not> isExpired n (at_expiry clk)"
  shows
   "(\<not> isProtected n \<longrightarrow> fst (GET e clk store db req) = GET_respond e n)
    \<and> (\<forall>h. passwordHash n = Some h \<and> h \<noteq> [] \<longrightarrow>
          (\<not> truthy (bearerToken (authorization req)) \<longrightarrow>
             fst (GET e clk store db req) = message 401 ''Password required.'')
        \<and> (\<forall>p. bearerToken (authorization req) = Some p \<and> p \<noteq> [] \<longrightarrow>
             fst (GET e clk store db req)
               = (if bcrypt_compare e p h then GET_respond e n
                  else message 401 ''Invalid password.'')))
    \<and> status (GET_respond e n) \<noteq> 401
    \<and> (\<forall>ti c. b_title req = Some ti \<and> ti \<noteq> [] \<and> b_content req = Some c \<and> c \<noteq> []
               \<and> \<not> isProfane e (ti @ '' '' @ c) \<longrightarrow>
          (\<not> isProtected n \<longrightarrow>
             (fst (PUT e clk store db req), snd (snd (PUT e clk store db req)))
               = PUT_update e clk db req n ti c)
        \<and> (\<forall>h. passwordHash n = Some h \<and> h \<noteq> [] \<longrightarrow>
              (\<not> truthy (b_currentPassword req) \<longrightarrow>
                 (fst (PUT e clk store db req), snd (snd (PUT e clk store db req)))
                   = (message 401 ''Current password required to update this note.'', db))
            \<and> (\<forall>p. b_currentPassword req = Some p \<and> p \<noteq> [] \<longrightarrow>
                 (fst (PUT e clk store db req), snd (snd (PUT e clk store db req)))
                   = (if bcrypt_compare e p h then PUT_update e clk db req n ti c
                      else (message 401 ''Incorrect password.'', db))))
        \<and> status (fst (PUT_update e clk db req n ti c)) \<noteq> 401)"
proof -
  have G: "fst (GET e clk store db req)
            = (case passwordGate e n (bearerToken (authorization req))
                      ''Password required.'' ''Invalid password.'' of
                 Some r \<Rightarrow> r | None \<Rightarrow> GET_respond e n)"
    using found live by (simp add: GET_passed[OF pass] GET_try_def)
  have P: "\<And>ti c. b_title req = Some ti \<Longrightarrow> ti \<noteq> [] \<Longrightarrow> b_content req = Some c \<Longrightarrow> c \<noteq> []
               \<Longrightarrow> \<not> isProfane e (ti @ '' '' @ c) \<Longrightarrow>
          (fst (PUT e clk store db req), snd (snd (PUT e clk store db req)))
            = (case passwordGate e n (b_currentPassword req)
                      ''Current password required to update this note.''
                      ''Incorrect password.'' of
                 Some r \<Rightarrow> (r, db) | None \<Rightarrow> PUT_update e clk db req n ti c)"
    using found live by (simp add: PUT_passed[OF pass] PUT_try_def split: option.splits)
  have g1: "\<not> isProtected n \<longrightarrow> fst (GET e clk store db req) = GET_respond e n"
    by (simp add: G passwordGate_cases)
  have g2: "\<forall>h. passwordHash n = Some h \<and> h \<noteq> [] \<longrightarrow>
          (\<not> truthy (bearerToken (authorization req)) \<longrightarrow>
             fst (GET e clk store db req) = message 401 ''Password required.'')
        \<and> (\<forall>p. bearerToken (authorization req) = Some p \<and> p \<noteq> [] \<longrightarrow>
             fst (GET e clk store db req)
               = (if bcrypt_compare e p h then GET_respond e n
                  else message 401 ''Invalid password.''))"
    by (simp add: G passwordGate_cases isProtected_def truthy_def)
  have p1: "\<forall>ti c. b_title req = Some ti \<and> ti \<noteq> [] \<and> b_content req = Some c \<and> c \<noteq> []
               \<and> \<not> isProfane e (ti @ '' '' @ c) \<longrightarrow>
          (\<not> isProtected n \<longrightarrow>
             (fst (PUT e clk store db req), snd (snd (PUT e clk store db req)))
               = PUT_update e clk db req n ti c)
        \<and> (\<forall>h. passwordHash n = Some h \<and> h \<noteq> [] \<longrightarrow>
              (\<not> truthy (b_currentPassword req) \<longrightarrow>
                 (fst (PUT e clk store db req), snd (snd (PUT e clk store db req)))
                   = (message 401 ''Current password required to update this note.'', db))
            \<and> (\<forall>p. b_currentPassword req = Some p \<and> p \<noteq> [] \<longrightarrow>
                 (fst (PUT e clk store db req), snd (snd (PUT e clk store db req)))
                   = (if bcrypt_compare e p h then PUT_update e clk db req n ti c
                      else (message 401 ''Incorrect password.'', db))))
        \<and> status (fst (PUT_update e clk db req n ti c)) \<noteq> 401"
  proof (intro allI impI)
    fix ti c
    assume v: "b_title req = Some ti \<and> ti \<noteq> [] \<and> b_content req = Some c \<and> c \<noteq> []
               \<and> \<not> isProfane e (ti @ '' '' @ c)"
    then have E: "(fst (PUT e clk store db req), snd (snd (PUT e clk store db req)))
            = (case passwordGate e n (b_currentPassword req)
                      ''Current password required to update this note.''
                      ''Incorrect password.'' of
                 Some r \<Rightarrow> (r, db) | None \<Rightarrow> PUT_update e clk db req n ti c)"
      using P by blast
    show "(\<not> isProtected n \<longrightarrow>
             (fst (PUT e clk store db req), snd (snd (PUT e clk store db req)))
               = PUT_update e clk db req n ti c)
        \<and> (\<forall>h. passwordHash n = Some h \<and> h \<noteq> [] \<longrightarrow>
              (\<not> truthy (b_currentPassword req) \<longrightarrow>
                 (fst (PUT e clk store db req), snd (snd (PUT e clk store db req)))
                   = (message 401 ''Current password required to update this note.'', db))
            \<and> (\<forall>p. b_currentPassword req = Some p \<and> p \<noteq> [] \<longrightarrow>
                 (fst (PUT e clk store db req), snd (snd (PUT e clk store db req)))
                   = (if bcrypt_compare e p h then PUT_update e clk db req n ti c
                      else (message 401 ''Incorrect password.'', db))))
        \<and> status (fst (PUT_update e clk db req n ti c)) \<noteq> 401"
      unfolding E by (simp add: passwordGate_cases isProtected_def truthy_def PUT_update_status)
  qed
  show ?thesis by (rule conjI[OF g1 conjI[OF g2 conjI[OF GET_respond_status p1]]])
qed


lemma access_gate_examples:
  "fst (applyRateLimit Map.empty (clientAddress (ip demo_request) (forwarded demo_request))
          (now_ms demo_clock)) = None
   \<and> findOne [demo_note\<lparr>passwordHash := Some ''#pw''\<rparr>] (param_slug demo_request)
       = Some (demo_note\<lparr>passwordHash := Some ''#pw''\<rparr>)
   \<and> \<not> isExpired (demo_note\<lparr>passwordHash := Some ''#pw''\<rparr>) (at_expiry demo_clock)
   \<and> fst (GET demo_env demo_clock Map.empty [demo_note\<lparr>passwordHash := Some ''#pw''\<rparr>]
             demo_request) = message 401 ''Password required.''
   \<and> fst (GET demo_env demo_clock Map.empty [demo_note\<lparr>passwordHash := Some ''#pw''\<rparr>]
             (demo_request\<lparr>authorization := Some ''Bearer pw''\<rparr>))
       = GET_respond demo_env (demo_note\<lparr>passwordHash := Some ''#pw''\<rparr>)
   \<and> fst (GET demo_env demo_clock Map.empty [demo_note\<lparr>passwordHash := Some ''#pw''\<rparr>]
             (demo_request\<lparr>authorization := Some ''Bearer no''\<rparr>))
       = message 401 ''Invalid password.''
   \<and> fst (PUT demo_env demo_clock Map.empty [demo_note\<lparr>passwordHash := Some ''#pw''\<rparr>]
             demo_request) = message 401 ''Current password required to update this note.''
   \<and> fst (PUT demo_env demo_clock Map.empty [demo_note\<lparr>passwordHash := Some ''#pw''\<rparr>]
             (demo_request\<lparr>b_currentPassword := Some ''no''\<rparr>))
       = message 401 ''Incorrect password.''
   \<and> fst (GET demo_env demo_clock Map.empty [demo_note]
             (demo_request\<lparr>authorization := Some ''Bearer no''\<rparr>))
       = GET_respond demo_env demo_note"
proof -
  let ?P = "demo_note\<lparr>passwordHash := Some ''#pw''\<rparr>"
  let ?ok = "demo_request\<lparr>authorization := Some ''Bearer pw''\<rparr>"
  let ?no = "demo_request\<lparr>authorization := Some ''Bearer no''\<rparr>"
  let ?up = "demo_request\<lparr>b_currentPassword := Some ''no''\<rparr>"
  have p0: "fst (applyRateLimit Map.empty (clientAddress (ip demo_request) (forwarded demo_request))
          (now_ms demo_clock)) = None" by (rule demo_passes)
  have p1: "fst (applyRateLimit Map.empty (clientAddress (ip ?ok) (forwarded ?ok))
          (now_ms demo_clock)) = None" using demo_passes by simp
  have p2: "fst (applyRateLimit Map.empty (clientAddress (ip ?no) (forwarded ?no))
          (now_ms demo_clock)) = None" using demo_passes by simp
  have p3: "fst (applyRateLimit Map.empty (clientAddress (ip ?up) (forwarded ?up))
          (now_ms demo_clock)) = None" using demo_passes by simp
  have f: "findOne [?P] (param_slug demo_request) = Some ?P"
    by (simp add: findOne_def demo_note_def demo_request_def)
  have f0: "findOne [demo_note] (param_slug demo_request) = Some demo_note"
    by (simp add: findOne_def demo_note_def demo_request_def)
  have l: "\<not> isExpired ?P (at_expiry demo_clock)"
    by (simp add: isExpired_def demo_note_def)
  have l0: "\<not> isExpired demo_note (at_expiry demo_clock)"
    by (simp add: isExpired_def demo_note_def)
  have h: "passwordHash ?P = Some ''#pw'' \<and> ''#pw'' \<noteq> []" by simp
  have u: "\<not> isProtected demo_note" by (simp add: isProtected_def truthy_def demo_note_def)
  have v: "b_title demo_request = Some ''T'' \<and> ''T'' \<noteq> [] \<and> b_content demo_request = Some ''B''
           \<and> ''B'' \<noteq> [] \<and> \<not> isProfane demo_env (''T'' @ '' '' @ ''B'')"
    by (simp add: demo_request_def demo_env_def)
  have t0: "\<not> truthy (bearerToken (authorization demo_request))"
    by (simp add: bearerToken_def truthy_def demo_request_def)
  have t1: "bearerToken (authorization ?ok) = Some ''pw'' \<and> ''pw'' \<noteq> []"
    by (simp add: bearerToken_def at_index_def)
  have t2: "bearerToken (authorization ?no) = Some ''no'' \<and> ''no'' \<noteq> []"
    by (simp add: bearerToken_def at_index_def)
  have c1: "bcrypt_compare demo_env ''pw'' ''#pw''" by (simp add: demo_env_def)
  have c2: "\<not> bcrypt_compare demo_env ''no'' ''#pw''" by (simp add: demo_env_def)
  have k0: "\<not> truthy (b_currentPassword demo_request)"
    by (simp add: truthy_def demo_request_def)
  have k1: "b_currentPassword ?up = Some ''no'' \<and> ''no'' \<noteq> []" by simp
  have v': "b_title ?up = Some ''T'' \<and> ''T'' \<noteq> [] \<and> b_content ?up = Some ''B''
           \<and> ''B'' \<noteq> [] \<and> \<not> isProfane demo_env (''T'' @ '' '' @ ''B'')"
    using v by simp
  have f': "findOne [?P] (param_slug ?ok) = Some ?P" "findOne [?P] (param_slug ?no) = Some ?P"
    "findOne [?P] (param_slug ?up) = Some ?P" "findOne [demo_note] (param_slug ?no) = Some demo_note"
    using f f0 by simp_all
  have g0: "fst (GET demo_env demo_clock Map.empty [?P] demo_request)
              = message 401 ''Password required.''"
    using access_gate[OF p0 f l, of demo_env] h t0 by blast
  have g1: "fst (GET demo_env demo_clock Map.empty [?P] ?ok) = GET_respond demo_env ?P"
    using access_gate[OF p1 f'(1) l, of demo_env] h t1 c1 by simp
  have g2: "fst (GET demo_env demo_clock Map.empty [?P] ?no) = message 401 ''Invalid password.''"
    using access_gate[OF p2 f'(2) l, of demo_env] h t2 c2 by simp
  have g3: "fst (PUT demo_env demo_clock Map.empty [?P] demo_request)
              = message 401 ''Current password required to update this note.''"
    using access_gate[OF p0 f l, of demo_env] h v k0 by simp
  have g4: "fst (PUT demo_env demo_clock Map.empty [?P] ?up) = message 401 ''Incorrect password.''"
    using access_gate[OF p3 f'(3) l, of demo_env] h v' k1 c2 by simp
  have g5: "fst (GET demo_env demo_clock Map.empty [demo_note] ?no) = GET_respond demo_env demo_note"
    using access_gate[OF p2 f'(4) l0, of demo_env] u by simp
  show ?thesis
    by (rule conjI[OF p0 conjI[OF f conjI[OF l conjI[OF g0 conjI[OF g1 conjI[OF g2
          conjI[OF g3 conjI[OF g4 g5]]]]]]]])
qed

text \<open>
  Claim C4. The claim is about every credential a caller supplies, and \<open>GET\<close> does
  not verify the credential supplied but the piece between the first and the second
  space of the header. With the stand-in digest (the password after a \<open>#\<close>): a note
  protected with the password \<open>a b\<close>, read with the header the client pages send for
  that password (\<open>Bearer a b\<close>), is refused with status 401 and ``Invalid password.'',
  although \<open>bcrypt.compare\<close> of the password and the digest is true and \<open>PUT\<close>, which
  takes the password from the body, updates the note with it; and a note protected
  with the password \<open>a\<close> is read with the header \<open>Bearer a WRONG\<close>, whose credential
  the digest does not verify.
\<close>

theorem read_verifies_part_of_credential:
  "bcrypt_compare demo_env ''a b'' ''#a b''
   \<and> fst (GET demo_env demo_clock Map.empty [demo_note\<lparr>passwordHash := Some ''#a b''\<rparr>]
             (demo_request\<lparr>authorization := Some ''Bearer a b''\<rparr>))
       = message 401 ''Invalid password.''
   \<and> fst (PUT demo_env demo_clock Map.empty [demo_note\<lparr>passwordHash := Some ''#a b''\<rparr>]
             (demo_request\<lparr>b_currentPassword := Some ''a b''\<rparr>))
       = message 200 ''Note updated successfully!''
   \<and> bcrypt_compare demo_env ''a WRONG'' ''#a'' = False
   \<and> fst (GET demo_env demo_clock Map.empty [demo_note\<lparr>passwordHash := Some ''#a''\<rparr>]
             (demo_request\<lparr>authorization := Some ''Bearer a WRONG''\<rparr>))
       = GET_respond demo_env (demo_note\<lparr>passwordHash := Some ''#a''\<rparr>)
   \<and> status (GET_respond demo_env (demo_note\<lparr>passwordHash := Some ''#a''\<rparr>)) = 200"
proof -
  let ?N = "demo_note\<lparr>passwordHash := Some ''#a b''\<rparr>"
  let ?M = "demo_note\<lparr>passwordHash := Some ''#a''\<rparr>"
  let ?r1 = "demo_request\<lparr>authorization := Some ''Bearer a b''\<rparr>"
  let ?r2 = "demo_request\<lparr>b_currentPassword := Some ''a b''\<rparr>"
  let ?r3 = "demo_request\<lparr>authorization := Some ''Bearer a WRONG''\<rparr>"
  have c1: "bcrypt_compare demo_env ''a b'' ''#a b''" by (simp add: demo_env_def)
  have c2: "bcrypt_compare demo_env ''a WRONG'' ''#a'' = False" by (simp add: demo_env_def)
  have p1: "fst (applyRateLimit Map.empty (clientAddress (ip ?r1) (forwarded ?r1))
                  (now_ms demo_clock)) = None" using demo_passes by simp
  have p2: "fst (applyRateLimit Map.empty (clientAddress (ip ?r2) (forwarded ?r2))
                  (now_ms demo_clock)) = None" using demo_passes by simp
  have p3: "fst (applyRateLimit Map.empty (clientAddress (ip ?r3) (forwarded ?r3))
                  (now_ms demo_clock)) = None" using demo_passes by simp
  have g1: "GET_try demo_env demo_clock [?N] ?r1 = message 401 ''Invalid password.''"
    by (simp add: GET_try_def bearerToken_def at_index_def findOne_def isExpired_def
          passwordGate_def demo_note_def demo_request_def demo_env_def demo_clock_def)
  have u: "fst (PUT_try demo_env demo_clock [?N] ?r2) = message 200 ''Note updated successfully!''"
    by (simp add: PUT_try_def PUT_update_def PUT_response_def makeUpdateDoc_def
          resolveExpiresAt_def updateOne_def applyUpdate_def
          findOne_def isExpired_def passwordGate_def truthy_def Let_def
          demo_request_def demo_env_def demo_clock_def demo_note_def)
  have g3: "GET_try demo_env demo_clock [?M] ?r3 = GET_respond demo_env ?M"
    by (simp add: GET_try_def bearerToken_def at_index_def findOne_def isExpired_def
          passwordGate_def demo_note_def demo_request_def demo_env_def demo_clock_def)
  have s: "status (GET_respond demo_env ?M) = 200"
    by (simp add: GET_respond_def demo_note_def)
  have G1: "fst (GET demo_env demo_clock Map.empty [?N] ?r1) = message 401 ''Invalid password.''"
    using GET_passed[OF p1, of demo_env "[?N]"] g1 by simp
  have U: "fst (PUT demo_env demo_clock Map.empty [?N] ?r2)
             = message 200 ''Note updated successfully!''"
    using PUT_passed[OF p2, of demo_env "[?N]"] u by simp
  have G3: "fst (GET demo_env demo_clock Map.empty [?M] ?r3) = GET_respond demo_env ?M"
    using GET_passed[OF p3, of demo_env "[?M]"] g3 by simp
  show ?thesis
    by (rule conjI[OF c1 conjI[OF G1 conjI[OF U conjI[OF c2 conjI[OF G3 s]]]]])
qed

subsection \<open>Validation of title and content\<close>

lemma POST_passed:
  "fst (rateLimit MAX_REQUESTS_PER_WINDOW_POST store (clientAddress (ip req) (forwarded req))
          (now_ms clk)) = None
   \<Longrightarrow> POST e clk store db req
       = map_option (\<lambda>(r, db'). (r, snd (rateLimit MAX_REQUESTS_PER_WINDOW_POST store
                       (clientAddress (ip req) (forwarded req)) (now_ms clk)), db'))
           (POST_try e clk db req)"
  by (auto simp: POST_def split: prod.splits option.splits)

lemma demo_passes_POST:
  "rateLimit MAX_REQUESTS_PER_WINDOW_POST Map.empty
          (clientAddress (ip demo_request) (forwarded demo_request)) (now_ms demo_clock)
     = (None, [''10.0.0.1'' \<mapsto> \<lparr>count = 1, lastReset = 1000\<rparr>])"
  by (simp add: rateLimit_def Let_def MAX_REQUESTS_PER_WINDOW_POST_def clientAddress_def
        js_or_def truthy_def demo_request_def demo_clock_def)

lemma generateUniqueSlug_blank:
  "generateUniqueSlug (nanoid demo_env) [] (Some '' '') = Some ''xxxxxxxx''"
  by (simp add: generateUniqueSlug_def baseSlug_def trim_def isSpace_def toLowerCase_def
        slugAttempts.simps[of _ _ _ 0] MAX_ATTEMPTS_def currentSlug_def NANOID_SLUG_LENGTH_def
        findOne_def demo_env_def eval_nat_numeral)

lemma baseSlug_T: "baseSlug (Some ''T'') = ''t''"
  by code_simp

lemma generateUniqueSlug_T:
  "generateUniqueSlug (nanoid demo_env) [demo_note] (Some ''T'') = Some ''t''"
  by (simp add: generateUniqueSlug_def baseSlug_T slugAttempts.simps[of _ _ _ 0]
        MAX_ATTEMPTS_def currentSlug_def findOne_def demo_note_def)

text \<open>
  Claim C5, as stated: a title or a content that is empty after trimming is rejected.
  It fails: the handlers test the fields as they come (\<open>!title || !content\<close>), and a
  title of one space, which trims to the empty string, is truthy. \<open>POST\<close> creates the
  note (status 201) and \<open>PUT\<close> updates the stored one (status 200).
\<close>

theorem blank_title_counterexample:
  "trim '' '' = []
   \<and> POST demo_env demo_clock Map.empty [] (demo_request\<lparr>b_title := Some '' ''\<rparr>)
       = Some (created demo_env ''xxxxxxxx'',
               [''10.0.0.1'' \<mapsto> \<lparr>count = 1, lastReset = 1000\<rparr>],
               [\<lparr>oid = ''id1'', slug = ''xxxxxxxx'', title = '' '', content = ''B'',
                 passwordHash = None, createdAt = 1000, updatedAt = 1000, expiresAt = None,
                 history = [\<lparr>h_content = ''B'', h_timestamp = 1000\<rparr>]\<rparr>])
   \<and> status (created demo_env ''xxxxxxxx'') = 201
   \<and> PUT demo_env demo_clock Map.empty [demo_note] (demo_request\<lparr>b_title := Some '' ''\<rparr>)
       = (message 200 ''Note updated successfully!'',
          [''10.0.0.1'' \<mapsto> \<lparr>count = 1, lastReset = 1000\<rparr>],
          [\<lparr>oid = ''id0'', slug = ''s'', title = '' '', content = ''B'',
            passwordHash = None, createdAt = 0, updatedAt = 1000, expiresAt = None,
            history = [\<lparr>h_content = ''A'', h_timestamp = 0\<rparr>,
                       \<lparr>h_content = ''B'', h_timestamp = 1000\<rparr>]\<rparr>])"
proof -
  let ?req = "demo_request\<lparr>b_title := Some '' ''\<rparr>"
  have t: "trim '' '' = []" by (simp add: trim_def isSpace_def)
  have rl: "rateLimit MAX_REQUESTS_PER_WINDOW_POST Map.empty
          (clientAddress (ip ?req) (forwarded ?req)) (now_ms demo_clock)
     = (None, [''10.0.0.1'' \<mapsto> \<lparr>count = 1, lastReset = 1000\<rparr>])"
    using demo_passes_POST by simp
  have rl2: "applyRateLimit Map.empty
          (clientAddress (ip ?req) (forwarded ?req)) (now_ms demo_clock)
     = (None, [''10.0.0.1'' \<mapsto> \<lparr>count = 1, lastReset = 1000\<rparr>])"
    by (simp add: applyRateLimit_def rateLimit_def Let_def MAX_REQUESTS_PER_WINDOW_def
        clientAddress_def js_or_def truthy_def demo_request_def demo_clock_def)
  have fields: "b_title ?req = Some '' ''" "b_content ?req = Some ''B''"
    "b_customSlug ?req = None" "b_password ?req = None" "b_expiresAt ?req = Omitted"
    by (simp_all add: demo_request_def)
  have world: "\<And>x. isProfane demo_env x = False" "insertedId demo_env = ''id1''"
    "at_creation demo_clock = 1000"
    by (simp_all add: demo_env_def demo_clock_def)
  have pt: "POST_try demo_env demo_clock [] ?req
      = Some (created demo_env ''xxxxxxxx'',
               [\<lparr>oid = ''id1'', slug = ''xxxxxxxx'', title = '' '', content = ''B'',
                 passwordHash = None, createdAt = 1000, updatedAt = 1000, expiresAt = None,
                 history = [\<lparr>h_content = ''B'', h_timestamp = 1000\<rparr>]\<rparr>])"
    by (simp add: POST_try_def fields world js_or_def truthy_def generateUniqueSlug_blank
          insertOne_def Let_def)
  have p: "POST demo_env demo_clock Map.empty [] ?req
       = Some (created demo_env ''xxxxxxxx'',
               [''10.0.0.1'' \<mapsto> \<lparr>count = 1, lastReset = 1000\<rparr>],
               [\<lparr>oid = ''id1'', slug = ''xxxxxxxx'', title = '' '', content = ''B'',
                 passwordHash = None, createdAt = 1000, updatedAt = 1000, expiresAt = None,
                 history = [\<lparr>h_content = ''B'', h_timestamp = 1000\<rparr>]\<rparr>])"
    unfolding POST_def rl by (simp add: pt)
  have s: "status (created demo_env ''xxxxxxxx'') = 201" by (simp add: created_def)
  have ut: "PUT_try demo_env demo_clock [demo_note] ?req
       = (message 200 ''Note updated successfully!'',
          [\<lparr>oid = ''id0'', slug = ''s'', title = '' '', content = ''B'',
            passwordHash = None, createdAt = 0, updatedAt = 1000, expiresAt = None,
            history = [\<lparr>h_content = ''A'', h_timestamp = 0\<rparr>,
                       \<lparr>h_content = ''B'', h_timestamp = 1000\<rparr>]\<rparr>])"
    by (simp add: PUT_try_def PUT_update_def PUT_response_def makeUpdateDoc_def
          resolveExpiresAt_def updateOne_def applyUpdate_def
          findOne_def isExpired_def passwordGate_def truthy_def Let_def
          demo_request_def demo_env_def demo_clock_def demo_note_def)
  have u: "PUT demo_env demo_clock Map.empty [demo_note] ?req
       = (message 200 ''Note updated successfully!'',
          [''10.0.0.1'' \<mapsto> \<lparr>count = 1, lastReset = 1000\<rparr>],
          [\<lparr>oid = ''id0'', slug = ''s'', title = '' '', content = ''B'',
            passwordHash = None, createdAt = 0, updatedAt = 1000, expiresAt = None,
            history = [\<lparr>h_content = ''A'', h_timestamp = 0\<rparr>,
                       \<lparr>h_content = ''B'', h_timestamp = 1000\<rparr>]\<rparr>])"
    unfolding PUT_def rl2 by (simp add: ut)
  show ?thesis by (rule conjI[OF t conjI[OF p conjI[OF s u]]])
qed

text \<open>
  Claim C5, amended. When the title or the content of the request is missing or the
  empty string, a request that passes the limiter is answered with status 400
  (``Title and content are required.'', ``... for update.'' by \<open>PUT\<close>) and the
  collection stays as it is.
\<close>

theorem empty_fields_rejected:
  assumes "\<not> truthy (b_title req) \<or> \<not> truthy (b_content req)"
  shows "(fst (rateLimit MAX_REQUESTS_PER_WINDOW_POST store
                 (clientAddress (ip req) (forwarded req)) (now_ms clk)) = None \<longrightarrow>
            (\<exists>store'. POST e clk store db req
               = Some (message 400 ''Title and content are required.'', store', db)))
       \<and> (fst (applyRateLimit store (clientAddress (ip req) (forwarded req)) (now_ms clk)) = None \<longrightarrow>
            fst (PUT e clk store db req) = message 400 ''Title and content are required for update.''
            \<and> snd (snd (PUT e clk store db req)) = db)"
proof -
  have a: "POST_try e clk db req = Some (message 400 ''Title and content are required.'', db)"
    using assms by (auto simp: POST_try_def truthy_def split: option.splits)
  have b: "PUT_try e clk db req = (message 400 ''Title and content are required for update.'', db)"
    using assms by (auto simp: PUT_try_def truthy_def split: option.splits)
  have A: "fst (rateLimit MAX_REQUESTS_PER_WINDOW_POST store
                 (clientAddress (ip req) (forwarded req)) (now_ms clk)) = None \<longrightarrow>
            (\<exists>store'. POST e clk store db req
               = Some (message 400 ''Title and content are required.'', store', db))"
    by (simp add: POST_passed a)
  have B: "fst (applyRateLimit store (clientAddress (ip req) (forwarded req)) (now_ms clk)) = None \<longrightarrow>
            fst (PUT e clk store db req) = message 400 ''Title and content are required for update.''
            \<and> snd (snd (PUT e clk store db req)) = db"
    by (simp add: PUT_passed b)
  show ?thesis by (rule conjI[OF A B])
qed

theorem empty_fields_rejected_witness:
  "\<not> truthy (b_title (demo_request\<lparr>b_title := Some []\<rparr>))
   \<and> POST demo_env demo_clock Map.empty [demo_note] (demo_request\<lparr>b_title := Some []\<rparr>)
       = Some (message 400 ''Title and content are required.'',
               [''10.0.0.1'' \<mapsto> \<lparr>count = 1, lastReset = 1000\<rparr>], [demo_note])
   \<and> fst (PUT demo_env demo_clock Map.empty [demo_note] (demo_request\<lparr>b_title := Some []\<rparr>))
       = message 400 ''Title and content are required for update.''
   \<and> snd (snd (PUT demo_env demo_clock Map.empty [demo_note] (demo_request\<lparr>b_title := Some []\<rparr>)))
       = [demo_note]"
proof -
  let ?req = "demo_request\<lparr>b_title := Some []\<rparr>"
  have h: "\<not> truthy (b_title ?req)" by (simp add: truthy_def)
  have rl: "rateLimit MAX_REQUESTS_PER_WINDOW_POST Map.empty
          (clientAddress (ip ?req) (forwarded ?req)) (now_ms demo_clock)
     = (None, [''10.0.0.1'' \<mapsto> \<lparr>count = 1, lastReset = 1000\<rparr>])"
    using demo_passes_POST by simp
  have rl2: "fst (applyRateLimit Map.empty
          (clientAddress (ip ?req) (forwarded ?req)) (now_ms demo_clock)) = None"
    using demo_passes by simp
  from h have h': "\<not> truthy (b_title ?req) \<or> \<not> truthy (b_content ?req)" by blast
  note T = empty_fields_rejected[OF h', of Map.empty demo_clock demo_env "[demo_note]"]
  from T rl obtain st where p: "POST demo_env demo_clock Map.empty [demo_note] ?req
       = Some (message 400 ''Title and content are required.'', st, [demo_note])"
    by auto
  have "st = [''10.0.0.1'' \<mapsto> \<lparr>count = 1, lastReset = 1000\<rparr>]"
    using p rl by (simp add: POST_def split: option.splits prod.splits)
  with p have p': "POST demo_env demo_clock Map.empty [demo_note] ?req
       = Some (message 400 ''Title and content are required.'',
               [''10.0.0.1'' \<mapsto> \<lparr>count = 1, lastReset = 1000\<rparr>], [demo_note])" by simp
  from T rl2 have u: "fst (PUT demo_env demo_clock Map.empty [demo_note] ?req)
       = message 400 ''Title and content are required for update.''
   \<and> snd (snd (PUT demo_env demo_clock Map.empty [demo_note] ?req)) = [demo_note]"
    by blast
  show ?thesis by (rule conjI[OF h conjI[OF p' u]])
qed

subsection \<open>Updates: the history and the expiration\<close>

lemma slug_applyUpdate [simp]: "slug (applyUpdate u n) = slug n"
  by (simp add: applyUpdate_def)

lemma findOne_Some_slug: "findOne db s = Some n \<Longrightarrow> slug n = s"
  by (induction db) (auto simp: findOne_def split: if_splits)

lemma findOne_updateFirst_same:
  "findOne db s = Some n \<Longrightarrow> slug (f n) = s \<Longrightarrow> findOne (updateFirst s f db) s = Some (f n)"
  by (induction db) (auto simp: findOne_def split: if_splits)

lemma findOne_updateFirst_other:
  "s' \<noteq> s \<Longrightarrow> (\<And>m. slug (f m) = slug m) \<Longrightarrow> findOne (updateFirst s f db) s' = findOne db s'"
  by (induction db) (auto simp: findOne_def)

lemma updateOne_found:
  "findOne db s = Some n \<Longrightarrow>
     updateOne db s u = (1, (if applyUpdate u n = n then 0 else 1), updateFirst s (applyUpdate u) db)"
  by (simp add: updateOne_def)

lemma rateLimit_Some_status: "rateLimit m store a now = (Some r, store') \<Longrightarrow> status r = 429"
  by (auto simp: rateLimit_def Let_def split: if_splits)

lemma passwordGate_Some_status: "passwordGate e n p m1 m2 = Some r \<Longrightarrow> status r = 401"
  by (auto simp: passwordGate_def split: option.splits if_splits)

text \<open>What a response 200 of \<open>PUT\<close> says about the request.\<close>

lemma PUT_try_200:
  assumes "PUT_try e clk db req = (r, db')" and "status r = 200"
  shows "\<exists>n ti c. b_title req = Some ti \<and> b_content req = Some c
           \<and> findOne db (param_slug req) = Some n
           \<and> PUT_update e clk db req n ti c = (r, db')"
proof -
  from assms obtain ti c where tc: "b_title req = Some ti" "b_content req = Some c"
    by (cases "b_title req"; cases "b_content req") (auto simp: PUT_try_def)
  from assms tc have v: "ti \<noteq> []" "c \<noteq> []" "\<not> isProfane e (ti @ '' '' @ c)"
    by (auto simp: PUT_try_def split: if_splits)
  from assms tc v obtain n where n: "findOne db (param_slug req) = Some n"
    by (cases "findOne db (param_slug req)") (auto simp: PUT_try_def)
  from assms tc v n have l: "\<not> isExpired n (at_expiry clk)"
    by (auto simp: PUT_try_def split: if_splits)
  from assms tc v n l have "PUT_update e clk db req n ti c = (r, db')"
    by (cases "passwordGate e n (b_currentPassword req)
                 ''Current password required to update this note.'' ''Incorrect password.''")
       (auto simp: PUT_try_def dest: passwordGate_Some_status)
  with tc n show ?thesis by blast
qed

lemma PUT_200:
  assumes "PUT e clk store db req = (r, store', db')" and "status r = 200"
  shows "PUT_try e clk db req = (r, db')"
proof (cases "applyRateLimit store (clientAddress (ip req) (forwarded req)) (now_ms clk)")
  case (Pair x st)
  show ?thesis
  proof (cases x)
    case None
    with Pair assms show ?thesis by (auto simp: PUT_def split: prod.splits)
  next
    case (Some r0)
    with Pair have "status r0 = 429"
      using rateLimit_Some_status by (simp add: applyRateLimit_def)
    with Pair Some assms show ?thesis by (simp add: PUT_def)
  qed
qed

lemma PUT_update_200:
  assumes "PUT_update e clk db req n ti c = (r, db')" and "status r = 200"
      and "findOne db (param_slug req) = Some n"
  shows "\<exists>se. resolveExpiresAt e (at_expiration clk) (b_expiresAt req) = Inr se
           \<and> db' = updateFirst (param_slug req) (applyUpdate (makeUpdateDoc e clk req n ti c se)) db"
proof (cases "resolveExpiresAt e (at_expiration clk) (b_expiresAt req)")
  case (Inl x)
  with assms resolveExpiresAt_Inl[OF Inl] show ?thesis by (auto simp: PUT_update_def)
next
  case (Inr se)
  with assms show ?thesis by (auto simp: PUT_update_def updateOne_found)
qed

text \<open>
  Claim C2. When \<open>PUT\<close> answers with status 200, the slug had a note \<open>n\<close>, and the
  note under the slug afterwards has the submitted content and the history of \<open>n\<close>,
  followed by one entry with the submitted content when that content is not the
  content of \<open>n\<close> (\<open>note.content !== content\<close>), and by nothing when it is. So an update
  of the title, the password or the expiration alone adds no entry, the entries that
  were there stay, and the notes under other slugs are as before.
\<close>

theorem history_append_law:
  assumes "PUT e clk store db req = (r, store', db')" and "status r = 200"
  shows "\<exists>n n' c. findOne db (param_slug req) = Some n
           \<and> b_content req = Some c
           \<and> findOne db' (param_slug req) = Some n'
           \<and> content n' = c
           \<and> history n' = (if content n \<noteq> c
                            then history n @ [\<lparr>h_content = c, h_timestamp = at_history clk\<rparr>]
                            else history n)
           \<and> (\<forall>s. s \<noteq> param_slug req \<longrightarrow> findOne db' s = findOne db s)"
proof -
  from PUT_try_200[OF PUT_200[OF assms] assms(2)]
  obtain n ti c where a: "b_title req = Some ti" "b_content req = Some c"
      "findOne db (param_slug req) = Some n" "PUT_update e clk db req n ti c = (r, db')"
    by blast
  from PUT_update_200[OF a(4) assms(2) a(3)]
  obtain se where se: "db' = updateFirst (param_slug req)
                          (applyUpdate (makeUpdateDoc e clk req n ti c se)) db"
    by blast
  let ?f = "applyUpdate (makeUpdateDoc e clk req n ti c se)"
  have f: "findOne db' (param_slug req) = Some (?f n)"
    unfolding se using a(3) findOne_Some_slug[OF a(3)] by (simp add: findOne_updateFirst_same)
  have c: "content (?f n) = c" by (simp add: applyUpdate_def makeUpdateDoc_def)
  have h: "history (?f n) = (if content n \<noteq> c
                            then history n @ [\<lparr>h_content = c, h_timestamp = at_history clk\<rparr>]
                            else history n)"
    by (simp add: applyUpdate_def makeUpdateDoc_def)
  have o: "\<forall>s. s \<noteq> param_slug req \<longrightarrow> findOne db' s = findOne db s"
    unfolding se by (simp add: findOne_updateFirst_other)
  from a(2,3) f c h o show ?thesis by blast
qed


lemma demo_PUT_try:
  "PUT_try demo_env demo_clock [demo_note] demo_request
       = (message 200 ''Note updated successfully!'',
          [\<lparr>oid = ''id0'', slug = ''s'', title = ''T'', content = ''B'',
            passwordHash = None, createdAt = 0, updatedAt = 1000, expiresAt = None,
            history = [\<lparr>h_content = ''A'', h_timestamp = 0\<rparr>,
                       \<lparr>h_content = ''B'', h_timestamp = 1000\<rparr>]\<rparr>])"
  by (simp add: PUT_try_def PUT_update_def PUT_response_def makeUpdateDoc_def
          resolveExpiresAt_def updateOne_def applyUpdate_def
          findOne_def isExpired_def passwordGate_def truthy_def Let_def
          demo_request_def demo_env_def demo_clock_def demo_note_def)

lemma demo_PUT_try_title:
  "PUT_try demo_env demo_clock [demo_note] (demo_request\<lparr>b_title := Some ''U'', b_content := Some ''A''\<rparr>)
       = (message 200 ''Note updated successfully!'',
          [\<lparr>oid = ''id0'', slug = ''s'', title = ''U'', content = ''A'',
            passwordHash = None, createdAt = 0, updatedAt = 1000, expiresAt = None,
            history = [\<lparr>h_content = ''A'', h_timestamp = 0\<rparr>]\<rparr>])"
  by (simp add: PUT_try_def PUT_update_def PUT_response_def makeUpdateDoc_def
          resolveExpiresAt_def updateOne_def applyUpdate_def
          findOne_def isExpired_def passwordGate_def truthy_def Let_def
          demo_request_def demo_env_def demo_clock_def demo_note_def)

lemma demo_applyRateLimit:
  "applyRateLimit Map.empty (clientAddress (ip demo_request) (forwarded demo_request))
       (now_ms demo_clock)
     = (None, [''10.0.0.1'' \<mapsto> \<lparr>count = 1, lastReset = 1000\<rparr>])"
  by (simp add: applyRateLimit_def rateLimit_def Let_def MAX_REQUESTS_PER_WINDOW_def
        clientAddress_def js_or_def truthy_def demo_request_def demo_clock_def)

theorem history_append_law_witness:
  "PUT demo_env demo_clock Map.empty [demo_note] demo_request
     = (message 200 ''Note updated successfully!'',
        [''10.0.0.1'' \<mapsto> \<lparr>count = 1, lastReset = 1000\<rparr>],
        [\<lparr>oid = ''id0'', slug = ''s'', title = ''T'', content = ''B'',
          passwordHash = None, createdAt = 0, updatedAt = 1000, expiresAt = None,
          history = [\<lparr>h_content = ''A'', h_timestamp = 0\<rparr>,
                     \<lparr>h_content = ''B'', h_timestamp = 1000\<rparr>]\<rparr>])
   \<and> status (message 200 ''Note updated successfully!'') = 200
   \<and> (\<exists>n n' c. findOne [demo_note] (param_slug demo_request) = Some n
           \<and> b_content demo_request = Some c
           \<and> findOne [\<lparr>oid = ''id0'', slug = ''s'', title = ''T'', content = ''B'',
                 passwordHash = None, createdAt = 0, updatedAt = 1000, expiresAt = None,
                 history = [\<lparr>h_content = ''A'', h_timestamp = 0\<rparr>,
                     \<lparr>h_content = ''B'', h_timestamp = 1000\<rparr>]\<rparr>] (param_slug demo_request) = Some n'
           \<and> content n' = c
           \<and> history n' = (if content n \<noteq> c
                            then history n @ [\<lparr>h_content = c, h_timestamp = at_history demo_clock\<rparr>]
                            else history n))"
proof -
  have p: "PUT demo_env demo_clock Map.empty [demo_note] demo_request
     = (message 200 ''Note updated successfully!'',
        [''10.0.0.1'' \<mapsto> \<lparr>count = 1, lastReset = 1000\<rparr>],
        [\<lparr>oid = ''id0'', slug = ''s'', title = ''T'', content = ''B'',
          passwordHash = None, createdAt = 0, updatedAt = 1000, expiresAt = None,
          history = [\<lparr>h_content = ''A'', h_timestamp = 0\<rparr>,
                     \<lparr>h_content = ''B'', h_timestamp = 1000\<rparr>]\<rparr>])"
    unfolding PUT_def demo_applyRateLimit by (simp add: demo_PUT_try)
  have s: "status (message 200 ''Note updated successfully!'') = 200" by simp
  from history_append_law[OF p s] have
    "\<exists>n n' c. findOne [demo_note] (param_slug demo_request) = Some n
           \<and> b_content demo_request = Some c
           \<and> findOne [\<lparr>oid = ''id0'', slug = ''s'', title = ''T'', content = ''B'',
                 passwordHash = None, createdAt = 0, updatedAt = 1000, expiresAt = None,
                 history = [\<lparr>h_content = ''A'', h_timestamp = 0\<rparr>,
                     \<lparr>h_content = ''B'', h_timestamp = 1000\<rparr>]\<rparr>] (param_slug demo_request) = Some n'
           \<and> content n' = c
           \<and> history n' = (if content n \<noteq> c
                            then history n @ [\<lparr>h_content = c, h_timestamp = at_history demo_clock\<rparr>]
                            else history n)"
    by blast
  with p s show ?thesis by blast
qed

text \<open>An update of the title alone leaves the history as it is.\<close>

lemma title_only_update:
  "PUT demo_env demo_clock Map.empty [demo_note]
       (demo_request\<lparr>b_title := Some ''U'', b_content := Some ''A''\<rparr>)
     = (message 200 ''Note updated successfully!'',
        [''10.0.0.1'' \<mapsto> \<lparr>count = 1, lastReset = 1000\<rparr>],
        [\<lparr>oid = ''id0'', slug = ''s'', title = ''U'', content = ''A'',
          passwordHash = None, createdAt = 0, updatedAt = 1000, expiresAt = None,
          history = [\<lparr>h_content = ''A'', h_timestamp = 0\<rparr>]\<rparr>])"
proof -
  have "applyRateLimit Map.empty
       (clientAddress (ip (demo_request\<lparr>b_title := Some ''U'', b_content := Some ''A''\<rparr>))
          (forwarded (demo_request\<lparr>b_title := Some ''U'', b_content := Some ''A''\<rparr>)))
       (now_ms demo_clock)
     = (None, [''10.0.0.1'' \<mapsto> \<lparr>count = 1, lastReset = 1000\<rparr>])"
    using demo_applyRateLimit by simp
  then show ?thesis unfolding PUT_def by (simp add: demo_PUT_try_title)
qed

lemma PUT_authorised:
  assumes "fst (applyRateLimit store (clientAddress (ip req) (forwarded req)) (now_ms clk)) = None"
      and "b_title req = Some ti" "ti \<noteq> []" "b_content req = Some c" "c \<noteq> []"
      and "\<not> isProfane e (ti @ '' '' @ c)"
      and "findOne db (param_slug req) = Some n"
      and "\<not> isExpired n (at_expiry clk)"
      and "passwordGate e n (b_currentPassword req)
             ''Current password required to update this note.'' ''Incorrect password.'' = None"
  shows "fst (PUT e clk store db req) = fst (PUT_update e clk db req n ti c)
       \<and> snd (snd (PUT e clk store db req)) = snd (PUT_update e clk db req n ti c)"
  using assms(2-) by (simp add: PUT_passed[OF assms(1)] PUT_try_def)

lemma PUT_update_Inr:
  assumes "resolveExpiresAt e (at_expiration clk) (b_expiresAt req) = Inr se"
      and "findOne db (param_slug req) = Some n"
  shows "snd (PUT_update e clk db req n ti c)
           = updateFirst (param_slug req) (applyUpdate (makeUpdateDoc e clk req n ti c se)) db
       \<and> findOne (snd (PUT_update e clk db req n ti c)) (param_slug req)
           = Some (applyUpdate (makeUpdateDoc e clk req n ti c se) n)
       \<and> fst (PUT_update e clk db req n ti c)
           = PUT_response e req n c 1
               (if applyUpdate (makeUpdateDoc e clk req n ti c se) n = n then 0 else 1)"
  using assms findOne_Some_slug[OF assms(2)]
  by (simp add: PUT_update_def updateOne_found findOne_updateFirst_same)

lemma PUT_response_200:
  assumes "b_expiresAt req = Omitted
           \<or> (m2 = 0 \<longrightarrow> expiresAt n \<noteq> Some InvalidDate)"
  shows "status (PUT_response e req n c 1 m2) = 200"
  using assms
  by (cases "expiresAt n"; cases "the (expiresAt n)")
     (auto simp: PUT_response_def sameExpiresAt_def split: bool.splits)

lemma expiresAt_applyUpdate:
  "expiresAt (applyUpdate (makeUpdateDoc e clk req n ti c se) n)
     = (case se of Some d \<Rightarrow> d | None \<Rightarrow> expiresAt n)"
  by (simp add: applyUpdate_def makeUpdateDoc_def)

text \<open>
  The handling of \<open>expiresAt\<close> for \<open>null\<close>, for a field left out, and for the strings
  that \<open>new Date\<close> reads as an instant. For a \<open>PUT\<close> that reaches it (it passes the
  limiter and the validation, the note exists, has not expired, and the password gate
  lets it through): with \<open>null\<close> the response is 200 and the stored note has no
  expiration; with a string read as an instant after the time of the check, the
  response is 200 and the stored expiration is that instant; with one read as an
  instant not after that time, the response is 400 with the message ``Expiration date
  must be in the future.'' and the collection is unchanged; with the field left out,
  the response is 200 and the stored expiration is as before.
\<close>

lemma expiresAt_directive:
  assumes pass: "fst (applyRateLimit store (clientAddress (ip req) (forwarded req))
                        (now_ms clk)) = None"
      and valid: "b_title req = Some ti" "ti \<noteq> []" "b_content req = Some c" "c \<noteq> []"
                 "\<not> isProfane e (ti @ '' '' @ c)"
      and found: "findOne db (param_slug req) = Some n"
      and live: "\<not> isExpired n (at_expiry clk)"
      and auth: "passwordGate e n (b_currentPassword req)
             ''Current password required to update this note.'' ''Incorrect password.'' = None"
      and res: "PUT e clk store db req = (r, store', db')"
  shows "(b_expiresAt req = Null \<longrightarrow>
            status r = 200
            \<and> (\<exists>n'. findOne db' (param_slug req) = Some n' \<and> expiresAt n' = None))
       \<and> (\<forall>s t. b_expiresAt req = Given s \<and> s \<noteq> [] \<and> parseDate e s = Instant t
                 \<and> t > at_expiration clk \<longrightarrow>
            status r = 200
            \<and> (\<exists>n'. findOne db' (param_slug req) = Some n' \<and> expiresAt n' = Some (Instant t)))
       \<and> (\<forall>s t. b_expiresAt req = Given s \<and> s \<noteq> [] \<and> parseDate e s = Instant t
                 \<and> t \<le> at_expiration clk \<longrightarrow>
            r = message 400 ''Expiration date must be in the future.'' \<and> db' = db)
       \<and> (b_expiresAt req = Omitted \<longrightarrow>
            status r = 200
            \<and> (\<exists>n'. findOne db' (param_slug req) = Some n' \<and> expiresAt n' = expiresAt n))"
proof -
  from PUT_authorised[OF pass valid found live auth] res
  have U: "PUT_update e clk db req n ti c = (r, db')" by (simp add: prod_eq_iff)
  have ok: "\<And>se. resolveExpiresAt e (at_expiration clk) (b_expiresAt req) = Inr se
             \<Longrightarrow> b_expiresAt req = Omitted \<or> (\<exists>d. se = Some d \<and> d \<noteq> Some InvalidDate)
             \<Longrightarrow> status r = 200
                 \<and> (\<exists>n'. findOne db' (param_slug req) = Some n'
                        \<and> expiresAt n' = (case se of Some d \<Rightarrow> d | None \<Rightarrow> expiresAt n))"
  proof -
    fix se
    assume se: "resolveExpiresAt e (at_expiration clk) (b_expiresAt req) = Inr se"
      and c: "b_expiresAt req = Omitted \<or> (\<exists>d. se = Some d \<and> d \<noteq> Some InvalidDate)"
    let ?n' = "applyUpdate (makeUpdateDoc e clk req n ti c se) n"
    note I = PUT_update_Inr[OF se found, of ti c]
    have "b_expiresAt req = Omitted \<or> ((if ?n' = n then 0 else 1) = (0::nat) \<longrightarrow> expiresAt n \<noteq> Some InvalidDate)"
    proof (cases "b_expiresAt req = Omitted")
      case True then show ?thesis by simp
    next
      case False
      with c obtain d where d: "se = Some d" "d \<noteq> Some InvalidDate" by blast
      have "?n' = n \<Longrightarrow> expiresAt n = d"
        using expiresAt_applyUpdate[of e clk req n ti c se] d by simp
      with d show ?thesis by auto
    qed
    note R = this
    from U have fs: "fst (PUT_update e clk db req n ti c) = r"
      "snd (PUT_update e clk db req n ti c) = db'" by simp_all
    from I have I2: "findOne db' (param_slug req) = Some ?n'"
      and I3: "r = PUT_response e req n c 1 (if ?n' = n then 0 else 1)"
      unfolding fs by blast+
    from PUT_response_200[OF R] have "status r = 200" unfolding I3 .
    moreover note I2
    ultimately show "status r = 200
                 \<and> (\<exists>n'. findOne db' (param_slug req) = Some n'
                        \<and> expiresAt n' = (case se of Some d \<Rightarrow> d | None \<Rightarrow> expiresAt n))"
      using expiresAt_applyUpdate[of e clk req n ti c se] by blast
  qed
  have A: "b_expiresAt req = Null \<longrightarrow>
            status r = 200
            \<and> (\<exists>n'. findOne db' (param_slug req) = Some n' \<and> expiresAt n' = None)"
  proof
    assume x: "b_expiresAt req = Null"
    then have "resolveExpiresAt e (at_expiration clk) (b_expiresAt req) = Inr (Some None)"
      by (simp add: resolveExpiresAt_def)
    from ok[OF this] x show "status r = 200
            \<and> (\<exists>n'. findOne db' (param_slug req) = Some n' \<and> expiresAt n' = None)" by simp
  qed
  have B: "\<forall>s t. b_expiresAt req = Given s \<and> s \<noteq> [] \<and> parseDate e s = Instant t
                 \<and> t > at_expiration clk \<longrightarrow>
            status r = 200
            \<and> (\<exists>n'. findOne db' (param_slug req) = Some n' \<and> expiresAt n' = Some (Instant t))"
  proof (intro allI impI)
    fix s t
    assume x: "b_expiresAt req = Given s \<and> s \<noteq> [] \<and> parseDate e s = Instant t
                 \<and> t > at_expiration clk"
    then have "resolveExpiresAt e (at_expiration clk) (b_expiresAt req) = Inr (Some (Some (Instant t)))"
      by (simp add: resolveExpiresAt_def)
    from ok[OF this] show "status r = 200
            \<and> (\<exists>n'. findOne db' (param_slug req) = Some n' \<and> expiresAt n' = Some (Instant t))"
      by simp
  qed
  have C: "\<forall>s t. b_expiresAt req = Given s \<and> s \<noteq> [] \<and> parseDate e s = Instant t
                 \<and> t \<le> at_expiration clk \<longrightarrow>
            r = message 400 ''Expiration date must be in the future.'' \<and> db' = db"
  proof (intro allI impI)
    fix s t
    assume x: "b_expiresAt req = Given s \<and> s \<noteq> [] \<and> parseDate e s = Instant t
                 \<and> t \<le> at_expiration clk"
    then have "resolveExpiresAt e (at_expiration clk) (b_expiresAt req)
                 = Inl (message 400 ''Expiration date must be in the future.'')"
      by (simp add: resolveExpiresAt_def)
    with U show "r = message 400 ''Expiration date must be in the future.'' \<and> db' = db"
      by (simp add: PUT_update_def)
  qed
  have D: "b_expiresAt req = Omitted \<longrightarrow>
            status r = 200
            \<and> (\<exists>n'. findOne db' (param_slug req) = Some n' \<and> expiresAt n' = expiresAt n)"
  proof
    assume x: "b_expiresAt req = Omitted"
    then have "resolveExpiresAt e (at_expiration clk) (b_expiresAt req) = Inr None"
      by (simp add: resolveExpiresAt_def)
    from ok[OF this] x show "status r = 200
            \<and> (\<exists>n'. findOne db' (param_slug req) = Some n' \<and> expiresAt n' = expiresAt n)" by simp
  qed
  show ?thesis by (rule conjI[OF A conjI[OF B conjI[OF C D]]])
qed


lemma expiresAt_directive_examples:
  "findOne [demo_note\<lparr>expiresAt := Some (Instant 5000)\<rparr>] ''s''
     = Some (demo_note\<lparr>expiresAt := Some (Instant 5000)\<rparr>)
   \<and> \<not> isExpired (demo_note\<lparr>expiresAt := Some (Instant 5000)\<rparr>) (at_expiry demo_clock)
   \<and> parseDate demo_env ''2000'' = Instant 2000 \<and> at_expiration demo_clock < 2000
   \<and> parseDate demo_env ''1000'' = Instant 1000 \<and> 1000 \<le> at_expiration demo_clock
   \<and> status (fst (PUT demo_env demo_clock Map.empty
                    [demo_note\<lparr>expiresAt := Some (Instant 5000)\<rparr>]
                    (demo_request\<lparr>b_expiresAt := Null\<rparr>))) = 200
   \<and> (\<exists>n'. findOne (snd (snd (PUT demo_env demo_clock Map.empty
                    [demo_note\<lparr>expiresAt := Some (Instant 5000)\<rparr>]
                    (demo_request\<lparr>b_expiresAt := Null\<rparr>)))) ''s'' = Some n'
            \<and> expiresAt n' = None)
   \<and> status (fst (PUT demo_env demo_clock Map.empty
                    [demo_note\<lparr>expiresAt := Some (Instant 5000)\<rparr>]
                    (demo_request\<lparr>b_expiresAt := Given ''2000''\<rparr>))) = 200
   \<and> (\<exists>n'. findOne (snd (snd (PUT demo_env demo_clock Map.empty
                    [demo_note\<lparr>expiresAt := Some (Instant 5000)\<rparr>]
                    (demo_request\<lparr>b_expiresAt := Given ''2000''\<rparr>)))) ''s'' = Some n'
            \<and> expiresAt n' = Some (Instant 2000))
   \<and> fst (PUT demo_env demo_clock Map.empty
                    [demo_note\<lparr>expiresAt := Some (Instant 5000)\<rparr>]
                    (demo_request\<lparr>b_expiresAt := Given ''1000''\<rparr>))
       = message 400 ''Expiration date must be in the future.''
   \<and> snd (snd (PUT demo_env demo_clock Map.empty
                    [demo_note\<lparr>expiresAt := Some (Instant 5000)\<rparr>]
                    (demo_request\<lparr>b_expiresAt := Given ''1000''\<rparr>)))
       = [demo_note\<lparr>expiresAt := Some (Instant 5000)\<rparr>]
   \<and> status (fst (PUT demo_env demo_clock Map.empty
                    [demo_note\<lparr>expiresAt := Some (Instant 5000)\<rparr>] demo_request)) = 200
   \<and> (\<exists>n'. findOne (snd (snd (PUT demo_env demo_clock Map.empty
                    [demo_note\<lparr>expiresAt := Some (Instant 5000)\<rparr>] demo_request))) ''s'' = Some n'
            \<and> expiresAt n' = Some (Instant 5000))"
proof -
  let ?N = "demo_note\<lparr>expiresAt := Some (Instant 5000)\<rparr>"
  let ?R = "\<lambda>x. demo_request\<lparr>b_expiresAt := x\<rparr>"
  have pass: "\<And>x. fst (applyRateLimit Map.empty (clientAddress (ip (?R x)) (forwarded (?R x)))
                        (now_ms demo_clock)) = None"
    using demo_passes by simp
  have valid: "\<And>x. b_title (?R x) = Some ''T''" "''T'' \<noteq> []"
      "\<And>x. b_content (?R x) = Some ''B''" "''B'' \<noteq> []"
      "\<not> isProfane demo_env (''T'' @ '' '' @ ''B'')"
    by (simp_all add: demo_request_def demo_env_def)
  have slug: "\<And>x. param_slug (?R x) = ''s''" by (simp add: demo_request_def)
  have found0: "findOne [?N] ''s'' = Some ?N" by (simp add: findOne_def demo_note_def)
  have found: "\<And>x. findOne [?N] (param_slug (?R x)) = Some ?N"
    using found0 by (simp add: slug)
  have live: "\<not> isExpired ?N (at_expiry demo_clock)"
    by (simp add: isExpired_def demo_clock_def)
  have auth: "\<And>x. passwordGate demo_env ?N (b_currentPassword (?R x))
             ''Current password required to update this note.'' ''Incorrect password.'' = None"
    by (simp add: passwordGate_def demo_note_def)
  have d1: "parseDate demo_env ''2000'' = Instant 2000"
    by (simp add: demo_env_def demo_parseDate_def isDigit_def)
  have d2: "parseDate demo_env ''1000'' = Instant 1000"
    by (simp add: demo_env_def demo_parseDate_def isDigit_def)
  have c1: "at_expiration demo_clock < 2000" and c2: "1000 \<le> at_expiration demo_clock"
    by (simp_all add: demo_clock_def)
  have T: "\<And>x. (b_expiresAt (?R x) = Null \<longrightarrow>
            status (fst (PUT demo_env demo_clock Map.empty [?N] (?R x))) = 200
            \<and> (\<exists>n'. findOne (snd (snd (PUT demo_env demo_clock Map.empty [?N] (?R x))))
                       (param_slug (?R x)) = Some n' \<and> expiresAt n' = None))
       \<and> (\<forall>s t. b_expiresAt (?R x) = Given s \<and> s \<noteq> [] \<and> parseDate demo_env s = Instant t
                 \<and> t > at_expiration demo_clock \<longrightarrow>
            status (fst (PUT demo_env demo_clock Map.empty [?N] (?R x))) = 200
            \<and> (\<exists>n'. findOne (snd (snd (PUT demo_env demo_clock Map.empty [?N] (?R x))))
                       (param_slug (?R x)) = Some n' \<and> expiresAt n' = Some (Instant t)))
       \<and> (\<forall>s t. b_expiresAt (?R x) = Given s \<and> s \<noteq> [] \<and> parseDate demo_env s = Instant t
                 \<and> t \<le> at_expiration demo_clock \<longrightarrow>
            fst (PUT demo_env demo_clock Map.empty [?N] (?R x))
              = message 400 ''Expiration date must be in the future.''
            \<and> snd (snd (PUT demo_env demo_clock Map.empty [?N] (?R x))) = [?N])
       \<and> (b_expiresAt (?R x) = Omitted \<longrightarrow>
            status (fst (PUT demo_env demo_clock Map.empty [?N] (?R x))) = 200
            \<and> (\<exists>n'. findOne (snd (snd (PUT demo_env demo_clock Map.empty [?N] (?R x))))
                       (param_slug (?R x)) = Some n' \<and> expiresAt n' = expiresAt ?N))"
  proof -
    fix x
    have res: "PUT demo_env demo_clock Map.empty [?N] (?R x)
       = (fst (PUT demo_env demo_clock Map.empty [?N] (?R x)),
          fst (snd (PUT demo_env demo_clock Map.empty [?N] (?R x))),
          snd (snd (PUT demo_env demo_clock Map.empty [?N] (?R x))))"
      by simp
    show "?thesis x"
      by (rule expiresAt_directive[OF pass valid found live auth res])
  qed
  have a: "status (fst (PUT demo_env demo_clock Map.empty [?N] (?R Null))) = 200
     \<and> (\<exists>n'. findOne (snd (snd (PUT demo_env demo_clock Map.empty [?N] (?R Null)))) ''s'' = Some n'
            \<and> expiresAt n' = None)"
    using T[of Null] by (simp add: slug)
  have b: "status (fst (PUT demo_env demo_clock Map.empty [?N] (?R (Given ''2000'')))) = 200
     \<and> (\<exists>n'. findOne (snd (snd (PUT demo_env demo_clock Map.empty [?N] (?R (Given ''2000''))))) ''s''
              = Some n' \<and> expiresAt n' = Some (Instant 2000))"
    using T[of "Given ''2000''"] d1 c1 by (simp add: slug)
  have c: "fst (PUT demo_env demo_clock Map.empty [?N] (?R (Given ''1000'')))
              = message 400 ''Expiration date must be in the future.''
     \<and> snd (snd (PUT demo_env demo_clock Map.empty [?N] (?R (Given ''1000'')))) = [?N]"
    using T[of "Given ''1000''"] d2 c2 by simp
  have r0: "?R Omitted = demo_request" by (simp add: demo_request_def)
  have d: "status (fst (PUT demo_env demo_clock Map.empty [?N] demo_request)) = 200
     \<and> (\<exists>n'. findOne (snd (snd (PUT demo_env demo_clock Map.empty [?N] demo_request))) ''s'' = Some n'
            \<and> expiresAt n' = Some (Instant 5000))"
    using T[of Omitted] unfolding r0
    by (simp add: slug[of Omitted, unfolded r0] demo_request_def[THEN arg_cong, of b_expiresAt])
  show ?thesis
    using found0 live d1 c1 d2 c2 a b c d by simp
qed

text \<open>
  The other strings: the empty string is handled as a field left out, and a string
  that \<open>new Date\<close> cannot read passes the check of \<open>PUT\<close> (the comparison of
  \<open>Invalid Date\<close> with the time is false) and is assigned, whereas \<open>POST\<close> refuses
  it.
\<close>

lemma expiresAt_other_strings:
  "resolveExpiresAt e now (Given []) = Inr None
   \<and> (s \<noteq> [] \<and> parseDate e s = InvalidDate \<longrightarrow>
        resolveExpiresAt e now (Given s) = Inr (Some (Some InvalidDate)))"
  by (simp add: resolveExpiresAt_def)

lemma POST_unparsable_expiresAt:
  assumes "POST_try e clk db req = Some (r, db')"
      and "b_expiresAt req = Given s" and "s \<noteq> []" and "parseDate e s = InvalidDate"
  shows "status r = 400 \<and> db' = db"
proof (cases "b_title req")
  case None
  with assms(1) show ?thesis by (auto simp: POST_try_def)
next
  case ti: (Some ti)
  show ?thesis
  proof (cases "b_content req")
    case None
    with ti assms(1) show ?thesis by (auto simp: POST_try_def)
  next
    case c: (Some c)
    show ?thesis
    proof (cases "generateUniqueSlug (nanoid e) db (js_or (b_customSlug req) (Some ti))")
      case None
      with ti c assms show ?thesis by (auto simp: POST_try_def split: if_splits)
    next
      case (Some finalSlug)
      with ti c assms show ?thesis
        by (auto simp: POST_try_def Let_def created_def message_def respond_def split: if_splits)
    qed
  qed
qed

text \<open>
  Claim C6. The claim has every explicit \<open>expiresAt\<close> that is not strictly in the
  future rejected with a validation error, the note unchanged. \<open>PUT\<close> rejects when
  \<open>expirationDate <= new Date()\<close>, which is false for the \<open>Invalid Date\<close> of a string
  that is no date at all: the update with \<open>expiresAt = zz\<close> is answered with status
  200, and the update document assigns the invalid date to the note (the collection of
  the model keeps it as given). \<open>POST\<close> tests \<open>expirationDate > noteCreationTime\<close>
  and answers the same field with status 400.
\<close>

theorem unreadable_expiresAt_accepted:
  "parseDate demo_env ''zz'' = InvalidDate
   \<and> PUT demo_env demo_clock Map.empty [demo_note] (demo_request\<lparr>b_expiresAt := Given ''zz''\<rparr>)
       = (message 200 ''Note updated successfully!'',
          [''10.0.0.1'' \<mapsto> \<lparr>count = 1, lastReset = 1000\<rparr>],
          [\<lparr>oid = ''id0'', slug = ''s'', title = ''T'', content = ''B'',
            passwordHash = None, createdAt = 0, updatedAt = 1000,
            expiresAt = Some InvalidDate,
            history = [\<lparr>h_content = ''A'', h_timestamp = 0\<rparr>,
                       \<lparr>h_content = ''B'', h_timestamp = 1000\<rparr>]\<rparr>])
   \<and> POST demo_env demo_clock Map.empty [demo_note] (demo_request\<lparr>b_expiresAt := Given ''zz''\<rparr>)
       = Some (message 400 ''Expiration date must be in the future.'',
               [''10.0.0.1'' \<mapsto> \<lparr>count = 1, lastReset = 1000\<rparr>], [demo_note])"
proof -
  let ?req = "demo_request\<lparr>b_expiresAt := Given ''zz''\<rparr>"
  have d: "parseDate demo_env ''zz'' = InvalidDate"
    by (simp add: demo_env_def demo_parseDate_def isDigit_def)
  have rl: "applyRateLimit Map.empty (clientAddress (ip ?req) (forwarded ?req)) (now_ms demo_clock)
     = (None, [''10.0.0.1'' \<mapsto> \<lparr>count = 1, lastReset = 1000\<rparr>])"
    using demo_applyRateLimit by simp
  have rl2: "rateLimit MAX_REQUESTS_PER_WINDOW_POST Map.empty
          (clientAddress (ip ?req) (forwarded ?req)) (now_ms demo_clock)
     = (None, [''10.0.0.1'' \<mapsto> \<lparr>count = 1, lastReset = 1000\<rparr>])"
    using demo_passes_POST by simp
  have r: "resolveExpiresAt demo_env (at_expiration demo_clock) (Given ''zz'')
             = Inr (Some (Some InvalidDate))"
    by (simp add: resolveExpiresAt_def d)
  have fields: "b_title ?req = Some ''T''" "b_content ?req = Some ''B''"
    "b_customSlug ?req = None" "b_password ?req = None" "b_expiresAt ?req = Given ''zz''"
    "b_currentPassword ?req = None" "b_newPassword ?req = None" "param_slug ?req = ''s''"
    by (simp_all add: demo_request_def)
  have world: "\<And>x. isProfane demo_env x = False" "insertedId demo_env = ''id1''"
    "at_creation demo_clock = 1000" "at_expiry demo_clock = 1000" "at_update demo_clock = 1000"
    "at_history demo_clock = 1000"
    by (simp_all add: demo_env_def demo_clock_def)
  have ut: "PUT_try demo_env demo_clock [demo_note] ?req
       = (message 200 ''Note updated successfully!'',
          [\<lparr>oid = ''id0'', slug = ''s'', title = ''T'', content = ''B'',
            passwordHash = None, createdAt = 0, updatedAt = 1000,
            expiresAt = Some InvalidDate,
            history = [\<lparr>h_content = ''A'', h_timestamp = 0\<rparr>,
                       \<lparr>h_content = ''B'', h_timestamp = 1000\<rparr>]\<rparr>])"
    by (simp add: PUT_try_def PUT_update_def PUT_response_def makeUpdateDoc_def fields world r
          updateOne_def applyUpdate_def findOne_def isExpired_def passwordGate_def truthy_def
          Let_def demo_note_def)
  have u: "PUT demo_env demo_clock Map.empty [demo_note] ?req
       = (message 200 ''Note updated successfully!'',
          [''10.0.0.1'' \<mapsto> \<lparr>count = 1, lastReset = 1000\<rparr>],
          [\<lparr>oid = ''id0'', slug = ''s'', title = ''T'', content = ''B'',
            passwordHash = None, createdAt = 0, updatedAt = 1000,
            expiresAt = Some InvalidDate,
            history = [\<lparr>h_content = ''A'', h_timestamp = 0\<rparr>,
                       \<lparr>h_content = ''B'', h_timestamp = 1000\<rparr>]\<rparr>])"
    unfolding PUT_def rl by (simp add: ut)
  have pt: "POST_try demo_env demo_clock [demo_note] ?req
      = Some (message 400 ''Expiration date must be in the future.'', [demo_note])"
    by (simp add: POST_try_def fields world js_or_def truthy_def generateUniqueSlug_T d Let_def)
  have p: "POST demo_env demo_clock Map.empty [demo_note] ?req
       = Some (message 400 ''Expiration date must be in the future.'',
               [''10.0.0.1'' \<mapsto> \<lparr>count = 1, lastReset = 1000\<rparr>], [demo_note])"
    unfolding POST_def rl2 by (simp add: pt)
  show ?thesis by (rule conjI[OF d conjI[OF u p]])
qed

subsection \<open>Creating a note\<close>

lemma POST_201:
  assumes "POST e clk store db req = Some (r, store', db')" and "status r = 201"
  shows "POST_try e clk db req = Some (r, db')"
proof (cases "rateLimit MAX_REQUESTS_PER_WINDOW_POST store
                (clientAddress (ip req) (forwarded req)) (now_ms clk)")
  case (Pair x st)
  show ?thesis
  proof (cases x)
    case None
    with Pair assms show ?thesis by (auto simp: POST_def split: option.splits)
  next
    case (Some r0)
    with Pair have "status r0 = 429" using rateLimit_Some_status by simp
    with Pair Some assms show ?thesis by (simp add: POST_def)
  qed
qed

text \<open>
  Claim C9. When \<open>POST\<close> answers with status 201, the collection afterwards is the
  collection before followed by one note: its slug is the one \<open>generateUniqueSlug\<close>
  returned for \<open>customSlug || title\<close>, its title and content are the submitted ones,
  its history is the single entry with the submitted content and the time
  \<open>noteCreationTime\<close>, and \<open>createdAt\<close> and \<open>updatedAt\<close> are that same time; the
  response carries that slug.
\<close>

theorem create_persists:
  assumes "POST e clk store db req = Some (r, store', db')" and "status r = 201"
  shows "\<exists>ti c finalSlug nn.
           b_title req = Some ti \<and> b_content req = Some c
         \<and> generateUniqueSlug (nanoid e) db (js_or (b_customSlug req) (Some ti)) = Some finalSlug
         \<and> db' = db @ [nn]
         \<and> slug nn = finalSlug \<and> title nn = ti \<and> content nn = c
         \<and> history nn = [\<lparr>h_content = c, h_timestamp = at_creation clk\<rparr>]
         \<and> createdAt nn = at_creation clk \<and> updatedAt nn = at_creation clk
         \<and> body r = JObj [(''message'', JStr ''Note created successfully!''),
                           (''slug'', JStr finalSlug),
                           (''id'', JStr (insertedId e))]"
proof -
  note T = POST_201[OF assms]
  from T assms(2) obtain ti c where tc: "b_title req = Some ti" "b_content req = Some c"
    by (cases "b_title req"; cases "b_content req") (auto simp: POST_try_def)
  from T assms(2) tc have v: "ti \<noteq> []" "c \<noteq> []" "\<not> isProfane e (ti @ '' '' @ c)"
    by (auto simp: POST_try_def split: if_splits)
  from T tc v obtain finalSlug where
    g: "generateUniqueSlug (nanoid e) db (js_or (b_customSlug req) (Some ti)) = Some finalSlug"
    by (cases "generateUniqueSlug (nanoid e) db (js_or (b_customSlug req) (Some ti))")
       (auto simp: POST_try_def)
  let ?new = "\<lparr>oid = insertedId e, slug = finalSlug, title = ti, content = c,
                passwordHash = (if truthy (b_password req)
                                then map_option (bcrypt_hash e) (b_password req) else None),
                createdAt = at_creation clk, updatedAt = at_creation clk, expiresAt = None,
                history = [\<lparr>h_content = c, h_timestamp = at_creation clk\<rparr>]\<rparr>"
  from T assms(2) tc v g have
    "r = created e finalSlug \<and> (\<exists>x. db' = db @ [?new\<lparr>expiresAt := x\<rparr>])"
    by (cases "b_expiresAt req")
       (auto simp: POST_try_def Let_def insertOne_def split: if_splits)
  then obtain x where r: "r = created e finalSlug" and d: "db' = db @ [?new\<lparr>expiresAt := x\<rparr>]"
    by blast
  have b: "body r = JObj [(''message'', JStr ''Note created successfully!''),
                           (''slug'', JStr finalSlug),
                           (''id'', JStr (insertedId e))]"
    by (simp add: r created_def respond_def)
  show ?thesis
    apply (rule exI[of _ ti], rule exI[of _ c], rule exI[of _ finalSlug])
    apply (rule exI[of _ "?new\<lparr>expiresAt := x\<rparr>"])
    using tc g d b by simp
qed


theorem create_persists_witness:
  "POST demo_env demo_clock Map.empty [demo_note] demo_request
     = Some (created demo_env ''t'',
             [''10.0.0.1'' \<mapsto> \<lparr>count = 1, lastReset = 1000\<rparr>],
             [demo_note,
              \<lparr>oid = ''id1'', slug = ''t'', title = ''T'', content = ''B'',
                passwordHash = None, createdAt = 1000, updatedAt = 1000, expiresAt = None,
                history = [\<lparr>h_content = ''B'', h_timestamp = 1000\<rparr>]\<rparr>])
   \<and> status (created demo_env ''t'') = 201
   \<and> (\<exists>ti c finalSlug nn.
           b_title demo_request = Some ti \<and> b_content demo_request = Some c
         \<and> generateUniqueSlug (nanoid demo_env) [demo_note]
               (js_or (b_customSlug demo_request) (Some ti)) = Some finalSlug
         \<and> [demo_note,
              \<lparr>oid = ''id1'', slug = ''t'', title = ''T'', content = ''B'',
                passwordHash = None, createdAt = 1000, updatedAt = 1000, expiresAt = None,
                history = [\<lparr>h_content = ''B'', h_timestamp = 1000\<rparr>]\<rparr>] = [demo_note] @ [nn]
         \<and> slug nn = finalSlug \<and> title nn = ti \<and> content nn = c
         \<and> history nn = [\<lparr>h_content = c, h_timestamp = at_creation demo_clock\<rparr>]
         \<and> createdAt nn = at_creation demo_clock \<and> updatedAt nn = at_creation demo_clock
         \<and> body (created demo_env ''t'')
              = JObj [(''message'', JStr ''Note created successfully!''),
                      (''slug'', JStr finalSlug),
                      (''id'', JStr (insertedId demo_env))])"
proof -
  have fields: "b_title demo_request = Some ''T''" "b_content demo_request = Some ''B''"
    "b_customSlug demo_request = None" "b_password demo_request = None"
    "b_expiresAt demo_request = Omitted"
    by (simp_all add: demo_request_def)
  have world: "\<And>x. isProfane demo_env x = False" "insertedId demo_env = ''id1''"
    "at_creation demo_clock = 1000"
    by (simp_all add: demo_env_def demo_clock_def)
  have pt: "POST_try demo_env demo_clock [demo_note] demo_request
      = Some (created demo_env ''t'',
              [demo_note,
               \<lparr>oid = ''id1'', slug = ''t'', title = ''T'', content = ''B'',
                 passwordHash = None, createdAt = 1000, updatedAt = 1000, expiresAt = None,
                 history = [\<lparr>h_content = ''B'', h_timestamp = 1000\<rparr>]\<rparr>])"
    by (simp add: POST_try_def fields world js_or_def truthy_def generateUniqueSlug_T
          insertOne_def Let_def)
  have p: "POST demo_env demo_clock Map.empty [demo_note] demo_request
     = Some (created demo_env ''t'',
             [''10.0.0.1'' \<mapsto> \<lparr>count = 1, lastReset = 1000\<rparr>],
             [demo_note,
              \<lparr>oid = ''id1'', slug = ''t'', title = ''T'', content = ''B'',
                passwordHash = None, createdAt = 1000, updatedAt = 1000, expiresAt = None,
                history = [\<lparr>h_content = ''B'', h_timestamp = 1000\<rparr>]\<rparr>])"
    unfolding POST_def demo_passes_POST by (simp add: pt)
  have s: "status (created demo_env ''t'') = 201" by (simp add: created_def)
  from create_persists[OF p s] p s show ?thesis by blast
qed

subsection \<open>What a reader gets\<close>

lemma GET_try_200:
  assumes "status (GET_try e clk db req) = 200"
  shows "\<exists>n. findOne db (param_slug req) = Some n
           \<and> GET_try e clk db req = respond 200 (JObj [(''note'', noteResponse e n)])"
proof -
  from assms obtain n where n: "findOne db (param_slug req) = Some n"
    by (cases "findOne db (param_slug req)") (auto simp: GET_try_def)
  from assms n have l: "\<not> isExpired n (at_expiry clk)"
    by (auto simp: GET_try_def split: if_splits)
  from assms n l have "GET_try e clk db req = GET_respond e n"
    by (cases "passwordGate e n (bearerToken (authorization req))
                 ''Password required.'' ''Invalid password.''")
       (auto simp: GET_try_def dest: passwordGate_Some_status)
  with assms have "GET_try e clk db req = respond 200 (JObj [(''note'', noteResponse e n)])"
    by (auto simp: GET_respond_def split: if_splits)
  with n show ?thesis by blast
qed

lemma GET_history_try_200:
  assumes "status (GET_history_try e clk db req) = 200"
  shows "\<exists>n. findOne db (param_slug req) = Some n
           \<and> GET_history_try e clk db req = GET_history_respond e n"
proof -
  from assms obtain n where n: "findOne db (param_slug req) = Some n"
    by (cases "findOne db (param_slug req)") (auto simp: GET_history_try_def)
  from assms n have l: "\<not> isExpired n (at_expiry clk)"
    by (auto simp: GET_history_try_def split: if_splits)
  from assms n l have "GET_history_try e clk db req = GET_history_respond e n"
    by (cases "passwordGate e n (bearerToken (authorization req))
                 ''Password required.'' ''Invalid password.''")
       (auto simp: GET_history_try_def dest: passwordGate_Some_status)
  with n show ?thesis by blast
qed

lemma GET_200:
  assumes "status (fst (GET e clk store db req)) = 200"
  shows "fst (GET e clk store db req) = GET_try e clk db req"
proof (cases "applyRateLimit store (clientAddress (ip req) (forwarded req)) (now_ms clk)")
  case (Pair x st)
  show ?thesis
  proof (cases x)
    case None
    with Pair show ?thesis by (simp add: GET_def)
  next
    case (Some r0)
    with Pair have "status r0 = 429"
      using rateLimit_Some_status by (simp add: applyRateLimit_def)
    with Pair Some assms show ?thesis by (simp add: GET_def)
  qed
qed

lemma GET_history_200:
  assumes "status (fst (GET_history e clk store db req)) = 200"
  shows "fst (GET_history e clk store db req) = GET_history_try e clk db req"
proof (cases "applyRateLimit store (clientAddress (ip req) (forwarded req)) (now_ms clk)")
  case (Pair x st)
  show ?thesis
  proof (cases x)
    case None
    with Pair show ?thesis by (simp add: GET_history_def)
  next
    case (Some r0)
    with Pair have "status r0 = 429"
      using rateLimit_Some_status by (simp add: applyRateLimit_def)
    with Pair Some assms show ?thesis by (simp add: GET_history_def)
  qed
qed

text \<open>
  Claim C8. The body of a response 200 of \<open>GET\<close> is \<open>{note: noteResponse}\<close>, where
  \<open>noteResponse\<close> has the properties \<open>title\<close>, \<open>content\<close>, \<open>isProtected\<close>,
  \<open>createdAt\<close>, \<open>updatedAt\<close> and \<open>expiresAt\<close> of the stored note and no other; the
  body of a response 200 of the history \<open>GET\<close> has \<open>title\<close>, \<open>history\<close> (the entries
  in stored order, each with \<open>content\<close> and \<open>timestamp\<close>) and \<open>isProtected\<close> and no
  other. The digest is in neither: both are the same for two notes that differ only in
  a digest, as long as both have one or both have none. (\<open>expiresAt\<close> is \<open>undefined\<close>
  for a note without expiration.)
\<close>

theorem views_without_digest:
  "(status (fst (GET e clk store db req)) = 200 \<longrightarrow>
      (\<exists>n. findOne db (param_slug req) = Some n
         \<and> body (fst (GET e clk store db req))
             = JObj [(''note'',
                 JObj [(''title'', JStr (title n)),
                       (''content'', JStr (content n)),
                       (''isProtected'', JBool (isProtected n)),
                       (''createdAt'', JStr (toISOString e (createdAt n))),
                       (''updatedAt'', JStr (toISOString e (updatedAt n))),
                       (''expiresAt'', (case expiresAt n of
                                          Some (Instant t) \<Rightarrow> JStr (toISOString e t)
                                        | _ \<Rightarrow> JUndefined))])]))
   \<and> (status (fst (GET_history e clk store db req)) = 200 \<longrightarrow>
      (\<exists>n. findOne db (param_slug req) = Some n
         \<and> body (fst (GET_history e clk store db req))
             = JObj [(''title'', JStr (title n)),
                     (''history'',
                        JArr (map (\<lambda>entry.
                                JObj [(''content'', JStr (h_content entry)),
                                      (''timestamp'', JStr (toISOString e (h_timestamp entry)))])
                              (history n))),
                     (''isProtected'', JBool (isProtected n))]))
   \<and> keys (noteResponse e m)
         = [''title'', ''content'', ''isProtected'', ''createdAt'', ''updatedAt'', ''expiresAt'']
   \<and> keys (body (GET_history_respond e m)) = [''title'', ''history'', ''isProtected'']
   \<and> (\<forall>h'. truthy h' = truthy (passwordHash m) \<longrightarrow>
          noteResponse e (m\<lparr>passwordHash := h'\<rparr>) = noteResponse e m
        \<and> GET_history_respond e (m\<lparr>passwordHash := h'\<rparr>) = GET_history_respond e m)"
proof -
  have A: "status (fst (GET e clk store db req)) = 200 \<longrightarrow>
      (\<exists>n. findOne db (param_slug req) = Some n
         \<and> body (fst (GET e clk store db req))
             = JObj [(''note'',
                 JObj [(''title'', JStr (title n)),
                       (''content'', JStr (content n)),
                       (''isProtected'', JBool (isProtected n)),
                       (''createdAt'', JStr (toISOString e (createdAt n))),
                       (''updatedAt'', JStr (toISOString e (updatedAt n))),
                       (''expiresAt'', (case expiresAt n of
                                          Some (Instant t) \<Rightarrow> JStr (toISOString e t)
                                        | _ \<Rightarrow> JUndefined))])])"
  proof
    assume s: "status (fst (GET e clk store db req)) = 200"
    note E = GET_200[OF s]
    from s E have "status (GET_try e clk db req) = 200" by simp
    from GET_try_200[OF this] obtain n where n: "findOne db (param_slug req) = Some n"
      "GET_try e clk db req = respond 200 (JObj [(''note'', noteResponse e n)])" by blast
    have "body (fst (GET e clk store db req)) = JObj [(''note'', noteResponse e n)]"
      by (simp add: E n(2) respond_def)
    with n(1) show "\<exists>n. findOne db (param_slug req) = Some n
         \<and> body (fst (GET e clk store db req))
             = JObj [(''note'',
                 JObj [(''title'', JStr (title n)),
                       (''content'', JStr (content n)),
                       (''isProtected'', JBool (isProtected n)),
                       (''createdAt'', JStr (toISOString e (createdAt n))),
                       (''updatedAt'', JStr (toISOString e (updatedAt n))),
                       (''expiresAt'', (case expiresAt n of
                                          Some (Instant t) \<Rightarrow> JStr (toISOString e t)
                                        | _ \<Rightarrow> JUndefined))])]"
      unfolding noteResponse_def by blast
  qed
  have B: "status (fst (GET_history e clk store db req)) = 200 \<longrightarrow>
      (\<exists>n. findOne db (param_slug req) = Some n
         \<and> body (fst (GET_history e clk store db req))
             = JObj [(''title'', JStr (title n)),
                     (''history'',
                        JArr (map (\<lambda>entry.
                                JObj [(''content'', JStr (h_content entry)),
                                      (''timestamp'', JStr (toISOString e (h_timestamp entry)))])
                              (history n))),
                     (''isProtected'', JBool (isProtected n))])"
  proof
    assume s: "status (fst (GET_history e clk store db req)) = 200"
    note E = GET_history_200[OF s]
    from s E have "status (GET_history_try e clk db req) = 200" by simp
    from GET_history_try_200[OF this] obtain n where n: "findOne db (param_slug req) = Some n"
      "GET_history_try e clk db req = GET_history_respond e n" by blast
    have "body (fst (GET_history e clk store db req))
             = JObj [(''title'', JStr (title n)),
                     (''history'',
                        JArr (map (\<lambda>entry.
                                JObj [(''content'', JStr (h_content entry)),
                                      (''timestamp'', JStr (toISOString e (h_timestamp entry)))])
                              (history n))),
                     (''isProtected'', JBool (isProtected n))]"
      by (simp add: E n(2) GET_history_respond_def historyResponse_def respond_def)
    with n(1) show "\<exists>n. findOne db (param_slug req) = Some n
         \<and> body (fst (GET_history e clk store db req))
             = JObj [(''title'', JStr (title n)),
                     (''history'',
                        JArr (map (\<lambda>entry.
                                JObj [(''content'', JStr (h_content entry)),
                                      (''timestamp'', JStr (toISOString e (h_timestamp entry)))])
                              (history n))),
                     (''isProtected'', JBool (isProtected n))]"
      by blast
  qed
  have C: "keys (noteResponse e m)
         = [''title'', ''content'', ''isProtected'', ''createdAt'', ''updatedAt'', ''expiresAt'']"
    by (simp add: noteResponse_def)
  have D: "keys (body (GET_history_respond e m)) = [''title'', ''history'', ''isProtected'']"
    by (simp add: GET_history_respond_def respond_def)
  have F: "\<forall>h'. truthy h' = truthy (passwordHash m) \<longrightarrow>
          noteResponse e (m\<lparr>passwordHash := h'\<rparr>) = noteResponse e m
        \<and> GET_history_respond e (m\<lparr>passwordHash := h'\<rparr>) = GET_history_respond e m"
    by (simp add: noteResponse_def GET_history_respond_def historyResponse_def isProtected_def)
  show ?thesis by (rule conjI[OF A conjI[OF B conjI[OF C conjI[OF D F]]]])
qed

theorem views_without_digest_witness:
  "status (fst (GET demo_env demo_clock Map.empty [demo_note\<lparr>passwordHash := Some ''#pw''\<rparr>]
                  (demo_request\<lparr>authorization := Some ''Bearer pw''\<rparr>))) = 200
   \<and> body (fst (GET demo_env demo_clock Map.empty [demo_note\<lparr>passwordHash := Some ''#pw''\<rparr>]
                  (demo_request\<lparr>authorization := Some ''Bearer pw''\<rparr>)))
       = JObj [(''note'',
           JObj [(''title'', JStr ''T''), (''content'', JStr ''A''), (''isProtected'', JBool True),
                 (''createdAt'', JStr (decimal 0)), (''updatedAt'', JStr (decimal 0)),
                 (''expiresAt'', JUndefined)])]
   \<and> status (fst (GET_history demo_env demo_clock Map.empty
                  [demo_note\<lparr>passwordHash := Some ''#pw''\<rparr>]
                  (demo_request\<lparr>authorization := Some ''Bearer pw''\<rparr>))) = 200
   \<and> body (fst (GET_history demo_env demo_clock Map.empty
                  [demo_note\<lparr>passwordHash := Some ''#pw''\<rparr>]
                  (demo_request\<lparr>authorization := Some ''Bearer pw''\<rparr>)))
       = JObj [(''title'', JStr ''T''),
               (''history'', JArr [JObj [(''content'', JStr ''A''),
                                         (''timestamp'', JStr (decimal 0))]]),
               (''isProtected'', JBool True)]
   \<and> truthy (Some ''#other'') = truthy (passwordHash (demo_note\<lparr>passwordHash := Some ''#pw''\<rparr>))
   \<and> noteResponse demo_env (demo_note\<lparr>passwordHash := Some ''#other''\<rparr>)
       = noteResponse demo_env (demo_note\<lparr>passwordHash := Some ''#pw''\<rparr>)"
proof -
  let ?P = "demo_note\<lparr>passwordHash := Some ''#pw''\<rparr>"
  let ?ok = "demo_request\<lparr>authorization := Some ''Bearer pw''\<rparr>"
  have rl: "applyRateLimit Map.empty (clientAddress (ip ?ok) (forwarded ?ok)) (now_ms demo_clock)
     = (None, [''10.0.0.1'' \<mapsto> \<lparr>count = 1, lastReset = 1000\<rparr>])"
    using demo_applyRateLimit by simp
  have tok: "bearerToken (authorization ?ok) = Some ''pw''"
    by (simp add: bearerToken_def at_index_def)
  have g: "GET_try demo_env demo_clock [?P] ?ok = GET_respond demo_env ?P"
    by (simp add: GET_try_def bearerToken_def at_index_def findOne_def isExpired_def passwordGate_def
          demo_note_def demo_request_def demo_env_def)
  have h: "GET_history_try demo_env demo_clock [?P] ?ok = GET_history_respond demo_env ?P"
    by (simp add: GET_history_try_def bearerToken_def at_index_def findOne_def isExpired_def passwordGate_def
          demo_note_def demo_request_def demo_env_def)
  have s0: "status (GET_respond demo_env ?P) = 200"
    by (simp add: GET_respond_def demo_note_def)
  have s1: "status (fst (GET demo_env demo_clock Map.empty [?P] ?ok)) = 200"
    unfolding GET_def rl by (simp add: g s0)
  have s2: "status (fst (GET_history demo_env demo_clock Map.empty [?P] ?ok)) = 200"
    unfolding GET_history_def rl by (simp add: h GET_history_respond_def)
  have f: "\<And>n. findOne [?P] (param_slug ?ok) = Some n \<Longrightarrow> n = ?P"
    by (simp add: findOne_def demo_note_def demo_request_def)
  have t: "truthy (Some ''#other'') = truthy (passwordHash ?P)" by (simp add: truthy_def)
  note T = views_without_digest[of demo_env demo_clock Map.empty "[?P]" ?ok ?P]
  from T[THEN conjunct1, rule_format, OF s1] obtain n1 where
    n1: "findOne [?P] (param_slug ?ok) = Some n1"
    and e1: "body (fst (GET demo_env demo_clock Map.empty [?P] ?ok))
             = JObj [(''note'',
                 JObj [(''title'', JStr (title n1)),
                       (''content'', JStr (content n1)),
                       (''isProtected'', JBool (isProtected n1)),
                       (''createdAt'', JStr (toISOString demo_env (createdAt n1))),
                       (''updatedAt'', JStr (toISOString demo_env (updatedAt n1))),
                       (''expiresAt'', (case expiresAt n1 of
                                          Some (Instant t) \<Rightarrow> JStr (toISOString demo_env t)
                                        | _ \<Rightarrow> JUndefined))])]"
    by blast
  have b1: "body (fst (GET demo_env demo_clock Map.empty [?P] ?ok))
       = JObj [(''note'',
           JObj [(''title'', JStr ''T''), (''content'', JStr ''A''), (''isProtected'', JBool True),
                 (''createdAt'', JStr (decimal 0)), (''updatedAt'', JStr (decimal 0)),
                 (''expiresAt'', JUndefined)])]"
    unfolding e1 f[OF n1] by (simp add: demo_note_def demo_env_def isProtected_def truthy_def)
  from T[THEN conjunct2, THEN conjunct1, rule_format, OF s2] obtain n2 where
    n2: "findOne [?P] (param_slug ?ok) = Some n2"
    and e2: "body (fst (GET_history demo_env demo_clock Map.empty [?P] ?ok))
             = JObj [(''title'', JStr (title n2)),
                     (''history'',
                        JArr (map (\<lambda>entry.
                                JObj [(''content'', JStr (h_content entry)),
                                      (''timestamp'', JStr (toISOString demo_env (h_timestamp entry)))])
                              (history n2))),
                     (''isProtected'', JBool (isProtected n2))]"
    by blast
  have b2: "body (fst (GET_history demo_env demo_clock Map.empty [?P] ?ok))
       = JObj [(''title'', JStr ''T''),
               (''history'', JArr [JObj [(''content'', JStr ''A''),
                                         (''timestamp'', JStr (decimal 0))]]),
               (''isProtected'', JBool True)]"
    unfolding e2 f[OF n2] by (simp add: demo_note_def demo_env_def isProtected_def truthy_def)
  from T[THEN conjunct2, THEN conjunct2, THEN conjunct2, THEN conjunct2, rule_format, OF t]
  have n: "noteResponse demo_env (demo_note\<lparr>passwordHash := Some ''#other''\<rparr>)
       = noteResponse demo_env ?P" by simp
  show ?thesis
    by (rule conjI[OF s1 conjI[OF b1 conjI[OF s2 conjI[OF b2 conjI[OF t n]]]]])
qed

subsection \<open>The slug allocator\<close>

lemma filter_slugChar: "\<forall>c\<in>set (filter slugChar b). slugChar c"
  by simp

lemma baseSlug_eq:
  "baseSlug p = (case p of None \<Rightarrow> []
                 | Some s \<Rightarrow> take 50 (filter slugChar (replaceSpaces (toLowerCase (trim s)))))"
  by (simp add: baseSlug_def Let_def split: option.splits)

lemma baseSlug_chars: "\<forall>c\<in>set (baseSlug p). slugChar c"
  unfolding baseSlug_eq by (auto split: option.splits dest: in_set_takeD)

lemma baseSlug_length: "length (baseSlug p) \<le> 50"
  unfolding baseSlug_eq by (simp split: option.splits)

text \<open>
  The first loop at attempt \<open>a\<close>: the number of calls of \<open>nanoid\<close> made before it.
\<close>

lemma currentSlug_candidate:
  assumes "k = (if base = [] then a else a - 1)" and "a < 5"
  shows "fst (currentSlug nano base a k) = spec_candidate nano base a
       \<and> snd (currentSlug nano base a k) = (if base = [] then Suc a else Suc a - 1)"
  using assms by (auto simp: currentSlug_def spec_candidate_def NANOID_SLUG_LENGTH_def)

lemma slugAttempts_found:
  assumes "a \<le> i" and "i < 5"
      and "findOne db (spec_candidate nano base i) = None"
      and "\<forall>j. a \<le> j \<and> j < i \<longrightarrow> findOne db (spec_candidate nano base j) \<noteq> None"
      and "k = (if base = [] then a else a - 1)"
  shows "fst (slugAttempts nano db base a k) = Some (spec_candidate nano base i)"
  using assms
proof (induction "i - a" arbitrary: a k)
  case 0
  then have ai: "a = i" by simp
  from currentSlug_candidate[OF "0.prems"(5)] "0.prems"(2) ai
  have c: "fst (currentSlug nano base a k) = spec_candidate nano base i" by simp
  show ?case
    by (subst slugAttempts.simps) (use "0.prems" ai c in \<open>simp add: MAX_ATTEMPTS_def\<close>)
next
  case (Suc d)
  then have lt: "a < i" "a < 5" by simp_all
  from currentSlug_candidate[OF Suc.prems(5) lt(2)]
  have c: "fst (currentSlug nano base a k) = spec_candidate nano base a"
    "snd (currentSlug nano base a k) = (if base = [] then Suc a else Suc a - 1)" by simp_all
  from Suc.prems(4) lt obtain ex where occ: "findOne db (spec_candidate nano base a) = Some ex"
    by auto
  have d: "d = i - Suc a" using Suc.hyps(2) by simp
  have "fst (slugAttempts nano db base (Suc a) (if base = [] then Suc a else Suc a - 1))
          = Some (spec_candidate nano base i)"
    by (rule Suc.hyps(1)[OF d]) (use Suc.prems lt in auto)
  then show ?case
    by (subst slugAttempts.simps) (simp add: MAX_ATTEMPTS_def lt c occ)
qed

lemma slugAttempts_exhausted:
  assumes "a \<le> 5"
      and "\<forall>j. a \<le> j \<and> j < 5 \<longrightarrow> findOne db (spec_candidate nano base j) \<noteq> None"
      and "k = (if base = [] then a else a - 1)"
  shows "slugAttempts nano db base a k = (None, if base = [] then 5 else 4)"
  using assms
proof (induction "5 - a" arbitrary: a k)
  case 0
  then have "a = 5" by simp
  with "0.prems" show ?case
    by (subst slugAttempts.simps) (simp add: MAX_ATTEMPTS_def)
next
  case (Suc d)
  then have lt: "a < 5" by simp
  from currentSlug_candidate[OF Suc.prems(3) lt]
  have c: "fst (currentSlug nano base a k) = spec_candidate nano base a"
    "snd (currentSlug nano base a k) = (if base = [] then Suc a else Suc a - 1)" by simp_all
  from Suc.prems(2) lt obtain ex where occ: "findOne db (spec_candidate nano base a) = Some ex"
    by auto
  have d: "d = 5 - Suc a" using Suc.hyps(2) by simp
  have "slugAttempts nano db base (Suc a) (if base = [] then Suc a else Suc a - 1)
          = (None, if base = [] then 5 else 4)"
    by (rule Suc.hyps(1)[OF d]) (use Suc.prems lt in auto)
  then show ?case
    by (subst slugAttempts.simps) (simp add: MAX_ATTEMPTS_def lt c occ)
qed

lemma slugAttempts_Some:
  assumes "slugAttempts nano db base a k = (Some s, k')"
      and "k = (if base = [] then a else a - 1)"
  shows "\<exists>i. a \<le> i \<and> i < 5 \<and> s = spec_candidate nano base i
           \<and> findOne db s = None
           \<and> (\<forall>j. a \<le> j \<and> j < i \<longrightarrow> findOne db (spec_candidate nano base j) \<noteq> None)"
proof -
  have "\<exists>i. a \<le> i \<and> i < 5 \<and> findOne db (spec_candidate nano base i) = None"
  proof (rule ccontr)
    assume "\<not> ?thesis"
    then have all: "\<forall>j. a \<le> j \<and> j < 5 \<longrightarrow> findOne db (spec_candidate nano base j) \<noteq> None" by simp
    show False
    proof (cases "a \<le> 5")
      case True
      from slugAttempts_exhausted[OF True all assms(2)] assms(1) show False by simp
    next
      case False
      with assms(1) show False by (subst (asm) slugAttempts.simps) (simp add: MAX_ATTEMPTS_def)
    qed
  qed
  then obtain i0 where i0: "a \<le> i0 \<and> i0 < 5 \<and> findOne db (spec_candidate nano base i0) = None"
    by blast
  define i where "i = (LEAST i. a \<le> i \<and> i < 5 \<and> findOne db (spec_candidate nano base i) = None)"
  have P: "a \<le> i \<and> i < 5 \<and> findOne db (spec_candidate nano base i) = None"
    unfolding i_def by (rule LeastI[of _ i0]) (rule i0)
  have m: "\<forall>j. a \<le> j \<and> j < i \<longrightarrow> findOne db (spec_candidate nano base j) \<noteq> None"
  proof (intro allI impI)
    fix j assume j: "a \<le> j \<and> j < i"
    show "findOne db (spec_candidate nano base j) \<noteq> None"
    proof
      assume "findOne db (spec_candidate nano base j) = None"
      with j P have "a \<le> j \<and> j < 5 \<and> findOne db (spec_candidate nano base j) = None" by simp
      then have "i \<le> j" unfolding i_def by (rule Least_le)
      with j show False by simp
    qed
  qed
  from P m slugAttempts_found[of a i db nano base k] assms
  have "s = spec_candidate nano base i" by simp
  with P m show ?thesis by blast
qed

text \<open>The fallback loop from the call \<open>k\<close> on.\<close>

lemma slugFallback_found:
  assumes "findOne db (nano (k + m) NANOID_SLUG_LENGTH) = None"
      and "\<forall>j<m. findOne db (nano (k + j) NANOID_SLUG_LENGTH) \<noteq> None"
  shows "slugFallback nano db k = Some (nano (k + m) NANOID_SLUG_LENGTH)"
  using assms
proof (induction m arbitrary: k)
  case 0
  then show ?case by (subst slugFallback.simps) simp
next
  case (Suc m)
  from Suc.prems(2) obtain ex where occ: "findOne db (nano k NANOID_SLUG_LENGTH) = Some ex"
    by force
  have "slugFallback nano db (Suc k) = Some (nano (Suc k + m) NANOID_SLUG_LENGTH)"
  proof (rule Suc.IH)
    show "findOne db (nano (Suc k + m) NANOID_SLUG_LENGTH) = None" using Suc.prems(1) by simp
    show "\<forall>j<m. findOne db (nano (Suc k + j) NANOID_SLUG_LENGTH) \<noteq> None"
    proof (intro allI impI)
      fix j assume "j < m"
      then have "Suc j < Suc m" by simp
      with Suc.prems(2) have "findOne db (nano (k + Suc j) NANOID_SLUG_LENGTH) \<noteq> None" by blast
      then show "findOne db (nano (Suc k + j) NANOID_SLUG_LENGTH) \<noteq> None" by simp
    qed
  qed
  then show ?case by (subst slugFallback.simps) (simp add: occ)
qed

lemma slugFallback_Some:
  assumes "slugFallback nano db k = Some s"
  shows "\<exists>m. s = nano (k + m) NANOID_SLUG_LENGTH \<and> findOne db s = None
        \<and> (\<forall>j<m. findOne db (nano (k + j) NANOID_SLUG_LENGTH) \<noteq> None)"
proof (rule slugFallback.raw_induct[where
          P = "\<lambda>nano db k s. \<exists>m. s = nano (k + m) NANOID_SLUG_LENGTH \<and> findOne db s = None
                 \<and> (\<forall>j<m. findOne db (nano (k + j) NANOID_SLUG_LENGTH) \<noteq> None)",
          OF _ assms])
  fix f :: "(nat \<Rightarrow> nat \<Rightarrow> string) \<Rightarrow> collection \<Rightarrow> nat \<Rightarrow> string option"
    and nano db k s
  assume IH: "\<And>nano db k s. f nano db k = Some s \<Longrightarrow>
                \<exists>m. s = nano (k + m) NANOID_SLUG_LENGTH \<and> findOne db s = None
                  \<and> (\<forall>j<m. findOne db (nano (k + j) NANOID_SLUG_LENGTH) \<noteq> None)"
    and eq: "(case findOne db (nano k NANOID_SLUG_LENGTH) of
                None \<Rightarrow> Some (nano k NANOID_SLUG_LENGTH)
              | Some existing \<Rightarrow> f nano db (Suc k)) = Some s"
  show "\<exists>m. s = nano (k + m) NANOID_SLUG_LENGTH \<and> findOne db s = None
        \<and> (\<forall>j<m. findOne db (nano (k + j) NANOID_SLUG_LENGTH) \<noteq> None)"
  proof (cases "findOne db (nano k NANOID_SLUG_LENGTH)")
    case None
    with eq have "s = nano (k + 0) NANOID_SLUG_LENGTH" by simp
    with None show ?thesis by (intro exI[of _ 0]) simp
  next
    case (Some ex)
    with eq have "f nano db (Suc k) = Some s" by simp
    from IH[OF this] obtain m where m: "s = nano (Suc k + m) NANOID_SLUG_LENGTH"
      "findOne db s = None" "\<forall>j<m. findOne db (nano (Suc k + j) NANOID_SLUG_LENGTH) \<noteq> None"
      by blast
    have "\<forall>j<Suc m. findOne db (nano (k + j) NANOID_SLUG_LENGTH) \<noteq> None"
    proof (intro allI impI)
      fix j assume j: "j < Suc m"
      show "findOne db (nano (k + j) NANOID_SLUG_LENGTH) \<noteq> None"
      proof (cases j)
        case 0
        with Some show ?thesis by simp
      next
        case (Suc j')
        with j m(3) have "findOne db (nano (Suc k + j') NANOID_SLUG_LENGTH) \<noteq> None" by simp
        with Suc show ?thesis by simp
      qed
    qed
    with m(1,2) show ?thesis by (intro exI[of _ "Suc m"]) simp
  qed
qed

lemma generateUniqueSlug_found:
  assumes "\<forall>j<i. findOne db (spec_candidate nano (baseSlug p) j) \<noteq> None"
      and "findOne db (spec_candidate nano (baseSlug p) i) = None"
  shows "generateUniqueSlug nano db p = Some (spec_candidate nano (baseSlug p) i)"
proof (cases "i < 5")
  case True
  have k0: "(0::nat) = (if baseSlug p = [] then 0 else 0 - 1)" by simp
  from slugAttempts_found[of 0 i db nano "baseSlug p" 0, OF _ True assms(2) _ k0] assms(1)
  have "fst (slugAttempts nano db (baseSlug p) 0 0) = Some (spec_candidate nano (baseSlug p) i)"
    by simp
  then show ?thesis
    by (cases "slugAttempts nano db (baseSlug p) 0 0") (simp add: generateUniqueSlug_def)
next
  case False
  then have i5: "5 \<le> i" by simp
  have k0: "(0::nat) = (if baseSlug p = [] then 0 else 0 - 1)" by simp
  let ?k = "if baseSlug p = [] then 5 else 4 :: nat"
  from assms(1) i5
  have "\<forall>j. 0 \<le> j \<and> j < 5 \<longrightarrow> findOne db (spec_candidate nano (baseSlug p) j) \<noteq> None" by simp
  from slugAttempts_exhausted[of 0 db nano "baseSlug p" 0, OF _ this k0]
  have ex: "slugAttempts nano db (baseSlug p) 0 0 = (None, ?k)" by simp
  have c: "\<And>m. spec_candidate nano (baseSlug p) (5 + m) = nano (?k + m) NANOID_SLUG_LENGTH"
    by (simp add: spec_candidate_def NANOID_SLUG_LENGTH_def)
  have i: "i = 5 + (i - 5)" using i5 by simp
  have f: "findOne db (nano (?k + (i - 5)) NANOID_SLUG_LENGTH) = None"
    using assms(2) c[of "i - 5"] i by simp
  have o: "\<forall>j<i - 5. findOne db (nano (?k + j) NANOID_SLUG_LENGTH) \<noteq> None"
  proof (intro allI impI)
    fix j assume "j < i - 5"
    then have "5 + j < i" by simp
    with assms(1) have "findOne db (spec_candidate nano (baseSlug p) (5 + j)) \<noteq> None" by blast
    then show "findOne db (nano (?k + j) NANOID_SLUG_LENGTH) \<noteq> None" unfolding c .
  qed
  from slugFallback_found[of db nano ?k "i - 5", OF f o] have "slugFallback nano db ?k = Some (nano (?k + (i - 5)) NANOID_SLUG_LENGTH)" .
  then have "slugFallback nano db ?k = Some (spec_candidate nano (baseSlug p) i)"
    using c[of "i - 5"] i by simp
  then show ?thesis by (simp add: generateUniqueSlug_def ex)
qed

lemma generateUniqueSlug_Some:
  assumes "generateUniqueSlug nano db p = Some s"
  shows "findOne db s = None
       \<and> (\<exists>i. s = spec_candidate nano (baseSlug p) i
              \<and> (\<forall>j<i. findOne db (spec_candidate nano (baseSlug p) j) \<noteq> None))"
proof -
  have k0: "(0::nat) = (if baseSlug p = [] then 0 else 0 - 1)" by simp
  obtain x k where sa: "slugAttempts nano db (baseSlug p) 0 0 = (x, k)"
    by (cases "slugAttempts nano db (baseSlug p) 0 0")
  show ?thesis
  proof (cases x)
    case (Some s')
    with sa assms have s': "s' = s" by (simp add: generateUniqueSlug_def)
    from slugAttempts_Some[OF sa[unfolded Some s'] k0] show ?thesis by auto
  next
    case None
    let ?k = "if baseSlug p = [] then 5 else 4 :: nat"
    have all5: "\<forall>j. 0 \<le> j \<and> j < 5 \<longrightarrow> findOne db (spec_candidate nano (baseSlug p) j) \<noteq> None"
    proof (rule ccontr)
      assume "\<not> ?thesis"
      then obtain i0 where i0: "i0 < 5 \<and> findOne db (spec_candidate nano (baseSlug p) i0) = None"
        by auto
      define i where "i = (LEAST i. i < 5 \<and> findOne db (spec_candidate nano (baseSlug p) i) = None)"
      have P: "i < 5 \<and> findOne db (spec_candidate nano (baseSlug p) i) = None"
        unfolding i_def by (rule LeastI[of _ i0]) (rule i0)
      have m: "\<forall>j. 0 \<le> j \<and> j < i \<longrightarrow> findOne db (spec_candidate nano (baseSlug p) j) \<noteq> None"
      proof (intro allI impI)
        fix j assume j: "0 \<le> j \<and> j < i"
        show "findOne db (spec_candidate nano (baseSlug p) j) \<noteq> None"
        proof
          assume "findOne db (spec_candidate nano (baseSlug p) j) = None"
          with j P have "j < 5 \<and> findOne db (spec_candidate nano (baseSlug p) j) = None" by simp
          then have "i \<le> j" unfolding i_def by (rule Least_le)
          with j show False by simp
        qed
      qed
      from slugAttempts_found[of 0 i db nano "baseSlug p" 0, OF _ _ _ m k0] P
      have "fst (slugAttempts nano db (baseSlug p) 0 0) \<noteq> None" by simp
      with sa None show False by simp
    qed
    from slugAttempts_exhausted[of 0 db nano "baseSlug p" 0, OF _ all5 k0] sa None
    have k: "k = ?k" by simp
    from assms sa None k have fb: "slugFallback nano db ?k = Some s"
      by (simp add: generateUniqueSlug_def)
    from slugFallback_Some[OF fb] obtain m where m: "s = nano (?k + m) NANOID_SLUG_LENGTH"
      "findOne db s = None" "\<forall>j<m. findOne db (nano (?k + j) NANOID_SLUG_LENGTH) \<noteq> None"
      by blast
    have c: "\<And>m. spec_candidate nano (baseSlug p) (5 + m) = nano (?k + m) NANOID_SLUG_LENGTH"
      by (simp add: spec_candidate_def NANOID_SLUG_LENGTH_def)
    have "\<forall>j<5 + m. findOne db (spec_candidate nano (baseSlug p) j) \<noteq> None"
    proof (intro allI impI)
      fix j assume j: "j < 5 + m"
      show "findOne db (spec_candidate nano (baseSlug p) j) \<noteq> None"
      proof (cases "j < 5")
        case True
        with all5 show ?thesis by simp
      next
        case False
        then have jj: "j = 5 + (j - 5)" "j - 5 < m" using j by simp_all
        from m(3) jj(2) have "findOne db (nano (?k + (j - 5)) NANOID_SLUG_LENGTH) \<noteq> None" by blast
        then show ?thesis using c[of "j - 5"] jj(1) by simp
      qed
    qed
    moreover have "s = spec_candidate nano (baseSlug p) (5 + m)" using m(1) c[of m] by simp
    ultimately show ?thesis using m(2) by blast
  qed
qed

text \<open>After the replacement no white space is left, and a string without any is unchanged.\<close>

lemma hyphen_no_space: "\<not> isSpace CHR ''-''"
  by (simp add: isSpace_def)

lemma replaceSpaces_no_space: "c \<in> set (replaceSpaces s) \<Longrightarrow> \<not> isSpace c"
proof (induction s rule: replaceSpaces.induct)
  case 1
  then show ?case by simp
next
  case (2 x xs)
  show ?case
  proof (cases "isSpace x")
    case True
    with 2 show ?thesis using hyphen_no_space by auto
  next
    case False
    with 2 show ?thesis by auto
  qed
qed

lemma replaceSpaces_id: "\<forall>c\<in>set s. \<not> isSpace c \<Longrightarrow> replaceSpaces s = s"
  by (induction s) simp_all

text \<open>
  Claim C3. The base is the proposal trimmed, in lower case, with every run of white
  space replaced by one hyphen, reduced to the characters of \<open>[a-z0-9-]\<close> and cut
  to 50 characters; there is no base when there is no proposal or nothing is left of
  it. \<open>generateUniqueSlug\<close> returns the first slug of the sequence \<open>spec_candidate\<close>
  (the base; the base with a random suffix for the other 4 of the 5 attempts; then
  random identifiers without bound) that no stored note has: if such a slug exists it
  is returned, what is returned is such a slug, and when every slug of the sequence is
  taken the function does not return.
\<close>

theorem generateUniqueSlug_allocates:
  "baseSlug p = (case p of None \<Rightarrow> []
                 | Some s \<Rightarrow> take 50 (filter slugChar (replaceSpaces (toLowerCase (trim s)))))
   \<and> (\<forall>c\<in>set (baseSlug p). slugChar c)
   \<and> length (baseSlug p) \<le> 50
   \<and> ((\<forall>j<i. findOne db (spec_candidate nano (baseSlug p) j) \<noteq> None)
        \<and> findOne db (spec_candidate nano (baseSlug p) i) = None \<longrightarrow>
        generateUniqueSlug nano db p = Some (spec_candidate nano (baseSlug p) i))
   \<and> (generateUniqueSlug nano db p = Some s \<longrightarrow>
        findOne db s = None
        \<and> (\<exists>i. s = spec_candidate nano (baseSlug p) i
               \<and> (\<forall>j<i. findOne db (spec_candidate nano (baseSlug p) j) \<noteq> None)))
   \<and> ((\<forall>i. findOne db (spec_candidate nano (baseSlug p) i) \<noteq> None) \<longrightarrow>
        generateUniqueSlug nano db p = None)"
proof -
  have D: "(\<forall>j<i. findOne db (spec_candidate nano (baseSlug p) j) \<noteq> None)
        \<and> findOne db (spec_candidate nano (baseSlug p) i) = None \<longrightarrow>
        generateUniqueSlug nano db p = Some (spec_candidate nano (baseSlug p) i)"
    using generateUniqueSlug_found by blast
  have E: "generateUniqueSlug nano db p = Some s \<longrightarrow>
        findOne db s = None
        \<and> (\<exists>i. s = spec_candidate nano (baseSlug p) i
               \<and> (\<forall>j<i. findOne db (spec_candidate nano (baseSlug p) j) \<noteq> None))"
    using generateUniqueSlug_Some by blast
  have F: "(\<forall>i. findOne db (spec_candidate nano (baseSlug p) i) \<noteq> None) \<longrightarrow>
        generateUniqueSlug nano db p = None"
  proof
    assume all: "\<forall>i. findOne db (spec_candidate nano (baseSlug p) i) \<noteq> None"
    show "generateUniqueSlug nano db p = None"
    proof (cases "generateUniqueSlug nano db p")
      case None then show ?thesis .
    next
      case (Some s')
      from generateUniqueSlug_Some[OF Some] all show ?thesis by metis
    qed
  qed
  show ?thesis
    by (rule conjI[OF baseSlug_eq conjI[OF baseSlug_chars conjI[OF baseSlug_length
          conjI[OF D conjI[OF E F]]]]])
qed

theorem generateUniqueSlug_allocates_witness:
  "baseSlug (Some ''  Hello   Wor/ld! '') = ''hello-world''
   \<and> baseSlug (Some ''T'') = ''t''
   \<and> findOne [demo_note\<lparr>slug := ''t''\<rparr>] (spec_candidate (nanoid demo_env) ''t'' 0) \<noteq> None
   \<and> findOne [demo_note\<lparr>slug := ''t''\<rparr>] (spec_candidate (nanoid demo_env) ''t'' 1) = None
   \<and> spec_candidate (nanoid demo_env) ''t'' 1 = ''t-xxxx''
   \<and> generateUniqueSlug (nanoid demo_env) [demo_note\<lparr>slug := ''t''\<rparr>] (Some ''T'')
       = Some ''t-xxxx''
   \<and> length (baseSlug (Some ''T'')) \<le> 50"
proof -
  let ?D = "[demo_note\<lparr>slug := ''t''\<rparr>]"
  have b0: "baseSlug (Some ''  Hello   Wor/ld! '') = ''hello-world''" by code_simp
  have b: "baseSlug (Some ''T'') = ''t''" by code_simp
  have c0: "spec_candidate (nanoid demo_env) ''t'' 0 = ''t''" by (simp add: spec_candidate_def)
  have c1: "spec_candidate (nanoid demo_env) ''t'' 1 = ''t-xxxx''"
    by (simp add: spec_candidate_def demo_env_def eval_nat_numeral)
  have o: "findOne ?D (spec_candidate (nanoid demo_env) ''t'' 0) \<noteq> None"
    unfolding c0 by (simp add: findOne_def)
  have f: "findOne ?D (spec_candidate (nanoid demo_env) ''t'' 1) = None"
    unfolding c1 by (simp add: findOne_def)
  have h: "(\<forall>j<1. findOne ?D (spec_candidate (nanoid demo_env) (baseSlug (Some ''T'')) j) \<noteq> None)
        \<and> findOne ?D (spec_candidate (nanoid demo_env) (baseSlug (Some ''T'')) 1) = None"
  proof (intro conjI allI impI)
    fix j :: nat assume "j < 1"
    then have "j = 0" by simp
    with o show "findOne ?D (spec_candidate (nanoid demo_env) (baseSlug (Some ''T'')) j) \<noteq> None"
      unfolding b by simp
  next
    show "findOne ?D (spec_candidate (nanoid demo_env) (baseSlug (Some ''T'')) 1) = None"
      unfolding b by (rule f)
  qed
  note T = generateUniqueSlug_allocates[of "Some ''T''" 1 ?D "nanoid demo_env"]
  from T h have g: "generateUniqueSlug (nanoid demo_env) ?D (Some ''T'')
       = Some (spec_candidate (nanoid demo_env) (baseSlug (Some ''T'')) 1)"
    by blast
  from T have l: "length (baseSlug (Some ''T'')) \<le> 50" by blast
  from g have g': "generateUniqueSlug (nanoid demo_env) ?D (Some ''T'') = Some ''t-xxxx''"
    unfolding b c1 .
  show ?thesis
    by (rule conjI[OF b0 conjI[OF b conjI[OF o conjI[OF f conjI[OF c1 conjI[OF g' l]]]]]])
qed

end
